theory Spec2Isabelle
  imports Complex_Main "HOL-Library.Char_ord" "HOL-Library.List_Lexorder"
begin

section \<open>Result reporting of the SWITCH Hawaii model (save_results.py)\<close>

text \<open>
  The module reads a solved optimisation model \<open>m\<close> and writes tab-separated reports.
  Python floats are idealised as \<^typ>\<open>real\<close>: arithmetic is exact, and a property the
  specification states "within floating-point tolerance" is stated as an equality.
  Everything the Python raises is a value of \<open>py_error\<close>; a computation that may raise
  has a result type \<open>py_error + 'a\<close>, with \<open>Inl\<close> for the exception.
\<close>

subsection \<open>Exceptions and the arithmetic of expressions that may raise\<close>

datatype py_error = KeyError | ZeroDivisionError | AttributeError | TypeError

type_synonym 'a res = "py_error + 'a"

definition rbind :: "'a res \<Rightarrow> ('a \<Rightarrow> 'b res) \<Rightarrow> 'b res" where
  "rbind r f = (case r of Inl e \<Rightarrow> Inl e | Inr v \<Rightarrow> f v)"

text \<open>\<open>component[index]\<close>: an indexed component raises KeyError outside its index set.\<close>

definition idx :: "('k \<rightharpoonup> 'v) \<Rightarrow> 'k \<Rightarrow> 'v res" where
  "idx c k = (case c k of None \<Rightarrow> Inl KeyError | Some v \<Rightarrow> Inr v)"

text \<open>\<open>m.name\<close> for an attribute of an optional module: AttributeError when it is absent.\<close>

definition attr :: "'a option \<Rightarrow> 'a res" where
  "attr a = (case a of None \<Rightarrow> Inl AttributeError | Some v \<Rightarrow> Inr v)"

text \<open>\<open>hasattr(m, name)\<close>.\<close>

definition hasattr :: "'a option \<Rightarrow> bool" where
  "hasattr a = (a \<noteq> None)"

text \<open>Binary operators evaluate the left operand first, then the right one.\<close>

definition py_add :: "real res \<Rightarrow> real res \<Rightarrow> real res" where
  "py_add a b = rbind a (\<lambda>x. rbind b (\<lambda>y. Inr (x + y)))"

definition py_sub :: "real res \<Rightarrow> real res \<Rightarrow> real res" where
  "py_sub a b = rbind a (\<lambda>x. rbind b (\<lambda>y. Inr (x - y)))"

definition py_mul :: "real res \<Rightarrow> real res \<Rightarrow> real res" where
  "py_mul a b = rbind a (\<lambda>x. rbind b (\<lambda>y. Inr (x * y)))"

definition py_div :: "real res \<Rightarrow> real res \<Rightarrow> real res" where
  "py_div a b = rbind a (\<lambda>x. rbind b (\<lambda>y. if y = 0 then Inl ZeroDivisionError else Inr (x / y)))"

text \<open>\<open>tuple(f(x) for x in xs)\<close> and \<open>[f(x) for x in xs]\<close>: the first failing element raises.\<close>

fun traverse :: "('a \<Rightarrow> 'b res) \<Rightarrow> 'a list \<Rightarrow> 'b list res" where
  "traverse f [] = Inr []"
| "traverse f (x # xs) = rbind (f x) (\<lambda>y. rbind (traverse f xs) (\<lambda>ys. Inr (y # ys)))"

text \<open>\<open>sum(f(x) for x in xs)\<close>.\<close>

definition py_sum :: "('a \<Rightarrow> real res) \<Rightarrow> 'a list \<Rightarrow> real res" where
  "py_sum f xs = rbind (traverse f xs) (\<lambda>vs. Inr (sum_list vs))"

text \<open>
  \<open>f(x) for x in xs if c(x)\<close>: for each element the condition is evaluated first and
  the element expression only when the condition holds.
\<close>

fun collect :: "('a \<Rightarrow> bool res) \<Rightarrow> ('a \<Rightarrow> 'b res) \<Rightarrow> 'a list \<Rightarrow> 'b list res" where
  "collect c f [] = Inr []"
| "collect c f (x # xs) =
     rbind (c x) (\<lambda>b.
       if b then rbind (f x) (\<lambda>y. rbind (collect c f xs) (\<lambda>ys. Inr (y # ys)))
       else collect c f xs)"

text \<open>\<open>sum(f(x) for x in xs if c(x))\<close>.\<close>

definition py_sum_if :: "('a \<Rightarrow> bool res) \<Rightarrow> ('a \<Rightarrow> real res) \<Rightarrow> 'a list \<Rightarrow> real res" where
  "py_sum_if c f xs = rbind (collect c f xs) (\<lambda>vs. Inr (sum_list vs))"

text \<open>\<open>a and b\<close> evaluates \<open>b\<close> only when \<open>a\<close> holds.\<close>

definition py_and :: "bool res \<Rightarrow> bool res \<Rightarrow> bool res" where
  "py_and a b = rbind a (\<lambda>x. if x then b else Inr False)"

text \<open>\<open>m.name[k]\<close> for a component of an optional module.\<close>

definition aidx :: "('k \<rightharpoonup> 'v) option \<Rightarrow> 'k \<Rightarrow> 'v res" where
  "aidx a k = rbind (attr a) (\<lambda>c. idx c k)"

text \<open>
  \<open>tuple(set(xs))\<close>: the distinct elements. Python leaves the order of a set open; the
  model keeps the order of the last occurrences.
\<close>

definition py_set :: "'a list \<Rightarrow> 'a list" where
  "py_set xs = remdups xs"

text \<open>\<open>sep.join(xs)\<close>.\<close>

fun join :: "string \<Rightarrow> string list \<Rightarrow> string" where
  "join sep [] = []"
| "join sep [x] = x"
| "join sep (x # y # ys) = x @ sep @ join sep (y # ys)"

text \<open>\<open>str(n)\<close> for an integer.\<close>

definition digit :: "nat \<Rightarrow> char" where
  "digit n = ''0123456789'' ! n"

function str_nat :: "nat \<Rightarrow> string" where
  "str_nat n = (if n < 10 then [digit n] else str_nat (n div 10) @ [digit (n mod 10)])"
  by pat_completeness auto
termination
  by (relation "measure id") auto

declare str_nat.simps [simp del]

definition str_int :: "int \<Rightarrow> string" where
  "str_int i = (if i < 0 then CHR ''-'' # str_nat (nat (- i)) else str_nat (nat i))"

text \<open>\<open>os.path.join(a, b)\<close> on a POSIX system.\<close>

definition path_join :: "string \<Rightarrow> string \<Rightarrow> string" where
  "path_join a b =
     (if b \<noteq> [] \<and> hd b = CHR ''/'' then b
      else if a = [] \<or> last a = CHR ''/'' then a @ b
      else a @ ''/'' @ b)"

subsection \<open>Names and indices\<close>

type_synonym proj = string
type_synonym zone = string
type_synonym tech = string
type_synonym fuel = string
type_synonym source = string
type_synonym market = string
type_synonym period = int
type_synonym timepoint = int
type_synonym timeseries = int
type_synonym supply_tier = "market \<times> period \<times> int"

subsection \<open>Cells, rows and tables\<close>

text \<open>
  A cell of a report is a string, an integer or a float. A row is assembled from
  segments, each of which may raise; the segments are evaluated in order.
\<close>

datatype cell = Text string | Whole int | Number real

definition num :: "real res \<Rightarrow> cell res" where
  "num r = rbind r (\<lambda>v. Inr (Number v))"

definition single :: "'a res \<Rightarrow> 'a list res" where
  "single r = rbind r (\<lambda>v. Inr [v])"

definition rconcat :: "'a list res list \<Rightarrow> 'a list res" where
  "rconcat segs = rbind (traverse id segs) (\<lambda>parts. Inr (concat parts))"

record table =
  file_name :: string
  headings :: "string list"
  rows :: "cell list list"

text \<open>
  Modelled from the spec: \<open>util.get\<close> and \<open>util.write_table\<close> of \<open>switch_mod.hawaii.util\<close>,
  which is imported and not part of these sources.
  Section 4.2: \<open>get(map, index, default)\<close> returns the default for an index that is not
  present in the map instead of raising.
  Section 4.5: \<open>build(dimensions, header, row_fn)\<close> produces the Cartesian product of the
  dimensions in a fixed order, outer to inner in the order the dimensions were given,
  and calls \<open>row_fn\<close> once per tuple to obtain the values of the row; it performs no
  aggregation. A row function that raises ends the table.
\<close>

definition get_default :: "('k \<rightharpoonup> 'v) \<Rightarrow> 'k \<Rightarrow> 'v \<Rightarrow> 'v" where
  "get_default c k d = (case c k of None \<Rightarrow> d | Some v \<Rightarrow> v)"

fun cartesian :: "'k list list \<Rightarrow> 'k list list" where
  "cartesian [] = [[]]"
| "cartesian (d # ds) = concat (map (\<lambda>x. map ((#) x) (cartesian ds)) d)"

definition write_table ::
  "'k list list \<Rightarrow> string \<Rightarrow> string list \<Rightarrow> ('k list \<Rightarrow> cell list res) \<Rightarrow> table res" where
  "write_table indexes output_file hs values =
     rbind (traverse values (cartesian indexes))
       (\<lambda>rs. Inr \<lparr>file_name = output_file, headings = hs, rows = rs\<rparr>)"

text \<open>
  The elements of the index sets that the reports iterate over: a name (load zone), a
  number (period, timepoint) or a supply tier of a fuel market, which the row function
  receives as its three components.
\<close>

datatype index_value = IName string | INumber int | ITier market period int

subsection \<open>The solved model\<close>

text \<open>
  The attributes of \<open>m\<close> that save_results.py reads. Index sets are lists (their iteration
  order), indexed components are partial maps, and an attribute that only an optional
  module defines is an \<open>option\<close>: \<open>None\<close> when the module is not loaded.
  \<open>zone_tp_component\<close> is the attribute dictionary restricted to the components indexed by
  load zone and timepoint, which the code reaches by name through \<open>getattr(m, c)\<close> and
  \<open>hasattr(m, c)\<close>. A constraint is named by a number, and \<open>dual\<close> maps it to its
  shadow price.
\<close>

record model =
  scenario_name :: "string option"
  PERIODS :: "period list"
  TIMEPOINTS :: "timepoint list"
  TIMESERIES :: "timeseries list"
  LOAD_ZONES :: "zone list"
  PROJECTS :: "proj list"
  FUELS :: "fuel list"
  NON_FUEL_ENERGY_SOURCES :: "source list"
  PERIOD_TPS :: "period \<rightharpoonup> timepoint list"
  PROJ_DISPATCH_POINTS :: "(proj \<times> timepoint) list"
  PROJECT_BUILDYEARS :: "(proj \<times> period) list"
  PROJECTS_BY_FUEL :: "fuel \<rightharpoonup> proj list"
  PROJECTS_BY_NON_FUEL_ENERGY_SOURCE :: "source \<rightharpoonup> proj list"
  G_FUELS :: "tech \<rightharpoonup> fuel list"
  g_uses_fuel :: "tech \<rightharpoonup> bool"
  g_energy_source :: "tech \<rightharpoonup> string"
  proj_gen_tech :: "proj \<rightharpoonup> tech"
  proj_load_zone :: "proj \<rightharpoonup> zone"
  tp_period :: "timepoint \<rightharpoonup> period"
  tp_timestamp :: "timepoint \<rightharpoonup> string"
  tp_ts :: "timepoint \<rightharpoonup> timeseries"
  ts_scale_to_year :: "timeseries \<rightharpoonup> real"
  bring_timepoint_costs_to_base_year :: "timepoint \<rightharpoonup> real"
  SystemCost :: real
  SystemCostPerPeriod :: "period \<rightharpoonup> real"
  discount_rate :: real
  base_financial_year :: real
  period_length_years :: "period \<rightharpoonup> real"
  period_start :: "period \<rightharpoonup> real"
  DispatchProj :: "proj \<times> timepoint \<rightharpoonup> real"
  DispatchUpperLimit :: "proj \<times> timepoint \<rightharpoonup> real"
  ProjFuelUseRate :: "proj \<times> timepoint \<times> fuel \<rightharpoonup> real"
  ProjCapacity :: "proj \<times> period \<rightharpoonup> real"
  BuildProj :: "proj \<times> period \<rightharpoonup> real"
  proj_overnight_cost :: "proj \<times> period \<rightharpoonup> real"
  proj_connect_cost_per_mw :: "proj \<rightharpoonup> real"
  Energy_Balance :: "zone \<times> timepoint \<rightharpoonup> nat"
  dual :: "nat \<rightharpoonup> real"
  LZ_Energy_Components_Produce :: "string list"
  LZ_Energy_Components_Consume :: "string list"
  zone_tp_component :: "string \<rightharpoonup> (zone \<times> timepoint \<rightharpoonup> real)"
  demand_response_max_share :: "real option"
  RPSEligiblePower :: "(period \<rightharpoonup> real) option"
  RPSTotalPower :: "(period \<rightharpoonup> real) option"
  RPSFuelPower :: "(period \<rightharpoonup> real) option"
  Battery_Capacity :: "(zone \<times> period \<rightharpoonup> real) option"
  battery_max_discharge :: "real option"
  battery_min_discharge_time :: "real option"
  Pumped_Hydro_Capacity_MW :: "(zone \<times> period \<rightharpoonup> real) option"
  FuelCellCapacityMW :: "(zone \<times> period \<rightharpoonup> real) option"
  BuildBattery :: "(zone \<times> period \<rightharpoonup> real) option"
  BuildPumpedHydroMW :: "(proj \<times> period \<rightharpoonup> real) option"
  PH_PROJECTS :: "proj list option"
  ph_load_zone :: "(proj \<rightharpoonup> zone) option"
  ph_capital_cost_per_mw :: "(proj \<rightharpoonup> real) option"
  BuildElectrolyzerMW :: "(zone \<times> period \<rightharpoonup> real) option"
  BuildLiquifierKgPerHour :: "(zone \<times> period \<rightharpoonup> real) option"
  BuildLiquidHydrogenTankKg :: "(zone \<times> period \<rightharpoonup> real) option"
  BuildFuelCellMW :: "(zone \<times> period \<rightharpoonup> real) option"
  hydrogen_electrolyzer_capital_cost_per_mw :: "real option"
  hydrogen_liquifier_capital_cost_per_kg_per_hour :: "real option"
  liquid_hydrogen_tank_capital_cost_per_kg :: "real option"
  hydrogen_fuel_cell_capital_cost_per_mw :: "real option"
  ev_share :: "(zone \<times> period \<rightharpoonup> real) option"
  n_all_vehicles :: "(zone \<times> period \<rightharpoonup> real) option"
  battery_capital_cost_per_mwh_capacity :: "real option"
  battery_capital_cost_per_mwh_capacity_by_year :: "(period \<rightharpoonup> real) option"
  REGIONAL_FUEL_MARKET :: "market list option"
  RFM_P_SUPPLY_TIERS :: "(market \<times> period \<rightharpoonup> supply_tier list) option"
  FuelConsumptionByTier :: "(supply_tier \<rightharpoonup> real) option"
  rfm_supply_tier_cost :: "(supply_tier \<rightharpoonup> real) option"
  RFM_Fixed_Costs_Annual :: "(period \<rightharpoonup> real) option"
  ev_extra_annual_cost :: "(period \<rightharpoonup> real) option"
  ice_annual_fuel_cost :: "(period \<rightharpoonup> real) option"
  RFMSupplyTierActivate :: "(supply_tier \<rightharpoonup> real) option"
  RFM_SUPPLY_TIERS :: "supply_tier list option"

text \<open>
  The module \<open>switch_mod.financials\<close> is imported, not part of these sources: its two
  discount factors are parameters of the model below. Either may raise.
\<close>

record financials =
  uniform_series_to_present_value :: "real \<Rightarrow> real \<Rightarrow> real res"
  future_to_present_value :: "real \<Rightarrow> real \<Rightarrow> real res"

subsection \<open>annualize_present_value_period_cost\<close>

definition annualize_present_value_period_cost ::
  "financials \<Rightarrow> model \<Rightarrow> period \<Rightarrow> real \<Rightarrow> real res" where
  "annualize_present_value_period_cost fin m period val =
     (let discount_factor =
        py_mul
          (rbind (idx (period_length_years m) period)
             (\<lambda>n. uniform_series_to_present_value fin (discount_rate m) n))
          (rbind (idx (period_start m) period)
             (\<lambda>s. future_to_present_value fin (discount_rate m) (s - base_financial_year m)))
      in py_div (Inr val) discount_factor)"

subsection \<open>DispatchProjByFuel\<close>

definition DispatchProjByFuel :: "model \<Rightarrow> proj \<Rightarrow> timepoint \<Rightarrow> fuel \<Rightarrow> real res" where
  "DispatchProjByFuel m proj tp fuel =
     (let dispatch = (case DispatchProj m (proj, tp) of Some d \<Rightarrow> d | None \<Rightarrow> 0) in
      if dispatch = 0 then Inr 0
      else
        (case py_div
                (py_mul (Inr dispatch) (idx (ProjFuelUseRate m) (proj, tp, fuel)))
                (rbind (idx (proj_gen_tech m) proj) (\<lambda>t.
                 rbind (idx (G_FUELS m) t) (\<lambda>fs.
                 py_sum (\<lambda>f. idx (ProjFuelUseRate m) (proj, tp, f)) fs)))
         of Inl ZeroDivisionError \<Rightarrow> Inr 0
          | r \<Rightarrow> r))"

subsection \<open>File names\<close>

definition tag :: "model \<Rightarrow> string" where
  "tag m = (case scenario_name m of None \<Rightarrow> [] | Some n \<Rightarrow> if n = [] then [] else ''_'' @ n)"

text \<open>A tuple or list display \<open>(a, b, c)\<close>: the elements are evaluated in order.\<close>

definition sequence_row :: "'a res list \<Rightarrow> 'a list res" where
  "sequence_row cs = traverse id cs"

subsection \<open>The summary report\<close>

definition summary_headers :: "model \<Rightarrow> string list" where
  "summary_headers m =
     [''scenario'', ''max_demand_response_share'', ''total_cost'', ''cost_per_kwh'']
     @ map (\<lambda>p. ''cost_per_kwh_'' @ str_int p) (PERIODS m)
     @ (if hasattr (RPSEligiblePower m)
        then ''renewable_share_all_years'' # map (\<lambda>p. ''renewable_share_'' @ str_int p) (PERIODS m)
        else [])
     @ (if hasattr (RPSEligiblePower m)
        then ''biofuel_share_all_years'' # map (\<lambda>p. ''biofuel_share_'' @ str_int p) (PERIODS m)
        else [])"

definition demand_components :: "model \<Rightarrow> string list" where
  "demand_components m =
     filter (\<lambda>c. hasattr (zone_tp_component m c)) [''lz_demand_mw'', ''DemandResponse'', ''ChargeEVs'']"

text \<open>
  The denominator that summary_values writes out twice, over all timepoints and over the
  timepoints of a period: the discounted kWh of demand.
\<close>

definition discounted_kwh :: "model \<Rightarrow> timepoint list \<Rightarrow> real res" where
  "discounted_kwh m tps =
     py_sum (\<lambda>t.
       py_mul
         (py_mul (idx (bring_timepoint_costs_to_base_year m) t) (Inr 1000))
         (py_sum (\<lambda>(c, lz). rbind (attr (zone_tp_component m c)) (\<lambda>comp. idx comp (lz, t)))
            (List.product (demand_components m) (LOAD_ZONES m)))) tps"

text \<open>The values that summary_values adds when the model has \<open>RPSEligiblePower\<close>.\<close>

definition rps_values :: "model \<Rightarrow> cell list res" where
  "rps_values m = rconcat
     [single (num (py_div (py_sum (aidx (RPSEligiblePower m)) (PERIODS m))
                          (py_sum (aidx (RPSTotalPower m)) (PERIODS m)))),
      traverse (\<lambda>p. num (py_div (aidx (RPSEligiblePower m) p) (aidx (RPSTotalPower m) p)))
        (PERIODS m),
      single (num (py_div (py_sum (aidx (RPSFuelPower m)) (PERIODS m))
                          (py_sum (aidx (RPSTotalPower m)) (PERIODS m)))),
      traverse (\<lambda>p. num (py_div (aidx (RPSFuelPower m) p) (aidx (RPSTotalPower m) p)))
        (PERIODS m)]"

definition summary_values :: "model \<Rightarrow> cell list res" where
  "summary_values m = rconcat
     [Inr [Text (case scenario_name m of None \<Rightarrow> ''None'' | Some n \<Rightarrow> n),
           Number (case demand_response_max_share m of Some v \<Rightarrow> v | None \<Rightarrow> 0)],
      Inr [Number (SystemCost m)],
      single (num (py_div (Inr (SystemCost m)) (discounted_kwh m (TIMEPOINTS m)))),
      traverse (\<lambda>p. num (py_div (idx (SystemCostPerPeriod m) p)
                               (rbind (idx (PERIOD_TPS m) p) (discounted_kwh m)))) (PERIODS m),
      if hasattr (RPSEligiblePower m) then rps_values m else Inr []]"

definition summary_table :: "model \<Rightarrow> string \<Rightarrow> table res" where
  "summary_table m outputs_dir =
     write_table ([] :: index_value list list)
       (path_join outputs_dir (''summary'' @ tag m @ ''.tsv''))
       (summary_headers m)
       (\<lambda>x. case x of [] \<Rightarrow> summary_values m | _ \<Rightarrow> Inl TypeError)"

subsection \<open>The energy sources report\<close>

definition avg_ts_scale :: "model \<Rightarrow> real res" where
  "avg_ts_scale m =
     py_div (py_sum (idx (ts_scale_to_year m)) (TIMESERIES m)) (Inr (real (length (TIMESERIES m))))"

definition energy_sources_headings :: "model \<Rightarrow> string list" where
  "energy_sources_headings m =
     [''load_zone'', ''period'', ''timepoint_label'']
     @ FUELS m
     @ NON_FUEL_ENERGY_SOURCES m
     @ map (\<lambda>s. ''curtail_'' @ s) (NON_FUEL_ENERGY_SOURCES m)
     @ LZ_Energy_Components_Produce m
     @ LZ_Energy_Components_Consume m
     @ [''marginal_cost'', ''peak_day'']"

definition energy_sources_values :: "model \<Rightarrow> real \<Rightarrow> zone \<Rightarrow> timepoint \<Rightarrow> cell list res" where
  "energy_sources_values m avg z t = rconcat
     [sequence_row
        [Inr (Text z),
         rbind (idx (tp_period m) t) (\<lambda>p. Inr (Whole p)),
         rbind (idx (tp_timestamp m) t) (\<lambda>l. Inr (Text l))],
      traverse (\<lambda>f. num (rbind (idx (PROJECTS_BY_FUEL m) f)
                           (py_sum (\<lambda>p. DispatchProjByFuel m p t f)))) (FUELS m),
      traverse (\<lambda>s. num (rbind (idx (PROJECTS_BY_NON_FUEL_ENERGY_SOURCE m) s)
                           (py_sum (\<lambda>p. Inr (get_default (DispatchProj m) (p, t) 0)))))
        (NON_FUEL_ENERGY_SOURCES m),
      traverse (\<lambda>s. num (rbind (idx (PROJECTS_BY_NON_FUEL_ENERGY_SOURCE m) s)
                           (py_sum (\<lambda>p. Inr (get_default (DispatchUpperLimit m) (p, t) 0
                                               - get_default (DispatchProj m) (p, t) 0)))))
        (NON_FUEL_ENERGY_SOURCES m),
      traverse (\<lambda>component. num (rbind (attr (zone_tp_component m component)) (\<lambda>c. idx c (z, t))))
        (LZ_Energy_Components_Produce m),
      traverse (\<lambda>component. num (rbind (attr (zone_tp_component m component)) (\<lambda>c. idx c (z, t))))
        (LZ_Energy_Components_Consume m),
      sequence_row
        [num (py_div (rbind (idx (Energy_Balance m) (z, t)) (\<lambda>c. Inr (get_default (dual m) c 0)))
                     (idx (bring_timepoint_costs_to_base_year m) t)),
         rbind (idx (tp_ts m) t) (\<lambda>ts.
         rbind (idx (ts_scale_to_year m) ts) (\<lambda>scale.
         Inr (Text (if scale < avg then ''peak'' else ''typical''))))]]"

definition energy_sources_table :: "model \<Rightarrow> string \<Rightarrow> real \<Rightarrow> table res" where
  "energy_sources_table m outputs_dir avg =
     write_table [map IName (LOAD_ZONES m), map INumber (TIMEPOINTS m)]
       (path_join outputs_dir (''energy_sources'' @ tag m @ ''.tsv''))
       (energy_sources_headings m)
       (\<lambda>x. case x of [IName z, INumber t] \<Rightarrow> energy_sources_values m avg z t
                     | _ \<Rightarrow> Inl TypeError)"

subsection \<open>Installed capacity\<close>

definition g_energy_source_of :: "model \<Rightarrow> tech \<Rightarrow> string res" where
  "g_energy_source_of m t =
     rbind (idx (g_uses_fuel m) t) (\<lambda>uses_fuel.
       if uses_fuel then rbind (idx (G_FUELS m) t) (\<lambda>fs. Inr (join ''/'' (sort fs)))
       else idx (g_energy_source m) t)"

definition built_proj :: "model \<Rightarrow> proj list res" where
  "built_proj m =
     rbind (collect (\<lambda>(pe, pr). rbind (idx (ProjCapacity m) (pr, pe)) (\<lambda>c. Inr (c > 1 / 1000)))
              (\<lambda>(pe, pr). Inr pr)
              (List.product (PERIODS m) (PROJECTS m)))
       (\<lambda>prs. Inr (py_set prs))"

definition operate_proj_in_period :: "model \<Rightarrow> (proj \<times> period) list res" where
  "operate_proj_in_period m =
     rbind (collect (\<lambda>(pr, tp). rbind (idx (DispatchProj m) (pr, tp)) (\<lambda>d. Inr (d > 1 / 1000)))
              (\<lambda>(pr, tp). rbind (idx (tp_period m) tp) (\<lambda>pe. Inr (pr, pe)))
              (PROJ_DISPATCH_POINTS m))
       (\<lambda>ops. Inr (py_set ops))"

definition built_tech :: "model \<Rightarrow> proj list \<Rightarrow> tech list res" where
  "built_tech m bp = rbind (traverse (idx (proj_gen_tech m)) bp) (\<lambda>ts. Inr (py_set ts))"

definition built_energy_source :: "model \<Rightarrow> tech list \<Rightarrow> string list res" where
  "built_energy_source m bt = rbind (traverse (g_energy_source_of m) bt) (\<lambda>ss. Inr (py_set ss))"

definition battery_capacity_mw :: "model \<Rightarrow> zone \<Rightarrow> period \<Rightarrow> real res" where
  "battery_capacity_mw m z pe =
     (if hasattr (Battery_Capacity m)
      then py_div (py_mul (aidx (Battery_Capacity m) (z, pe)) (attr (battery_max_discharge m)))
                  (attr (battery_min_discharge_time m))
      else Inr 0)"

text \<open>
  The two capacity reports share the term that a built project adds to the sum of its
  column and the three trailing cells.
\<close>

definition capacity_in_operation ::
  "model \<Rightarrow> (proj \<times> period) list \<Rightarrow> proj \<Rightarrow> period \<Rightarrow> real res" where
  "capacity_in_operation m ops pr pe =
     (if (pr, pe) \<in> set ops then idx (ProjCapacity m) (pr, pe) else Inr 0)"

definition storage_capacity_cells :: "model \<Rightarrow> zone \<Rightarrow> period \<Rightarrow> cell list res" where
  "storage_capacity_cells m z pe = sequence_row
     [if hasattr (Pumped_Hydro_Capacity_MW m) then num (aidx (Pumped_Hydro_Capacity_MW m) (z, pe))
      else Inr (Whole 0),
      num (battery_capacity_mw m z pe),
      if hasattr (FuelCellCapacityMW m) then num (aidx (FuelCellCapacityMW m) (z, pe))
      else Inr (Whole 0)]"

text \<open>The condition shared by the sums over the built projects of a technology in a zone.\<close>

definition tech_in_zone :: "model \<Rightarrow> tech \<Rightarrow> zone \<Rightarrow> proj \<Rightarrow> bool res" where
  "tech_in_zone m t z pr =
     py_and (rbind (idx (proj_gen_tech m) pr) (\<lambda>t'. Inr (t' = t)))
            (rbind (idx (proj_load_zone m) pr) (\<lambda>z'. Inr (z' = z)))"

definition capacity_by_technology_headings :: "tech list \<Rightarrow> string list" where
  "capacity_by_technology_headings bt =
     [''load_zone'', ''period''] @ bt @ [''hydro'', ''batteries'', ''fuel cells'']"

definition capacity_by_technology_values ::
  "model \<Rightarrow> proj list \<Rightarrow> (proj \<times> period) list \<Rightarrow> tech list \<Rightarrow> zone \<Rightarrow> period \<Rightarrow> cell list res" where
  "capacity_by_technology_values m bp ops bt z pe = rconcat
     [Inr [Text z, Whole pe],
      traverse (\<lambda>t. num (py_sum_if (tech_in_zone m t z)
                                     (\<lambda>pr. capacity_in_operation m ops pr pe) bp)) bt,
      storage_capacity_cells m z pe]"

definition capacity_by_technology_table ::
  "model \<Rightarrow> string \<Rightarrow> proj list \<Rightarrow> (proj \<times> period) list \<Rightarrow> tech list \<Rightarrow> table res" where
  "capacity_by_technology_table m outputs_dir bp ops bt =
     write_table [map IName (LOAD_ZONES m), map INumber (PERIODS m)]
       (path_join outputs_dir (''capacity_by_technology'' @ tag m @ ''.tsv''))
       (capacity_by_technology_headings bt)
       (\<lambda>x. case x of [IName z, INumber pe] \<Rightarrow> capacity_by_technology_values m bp ops bt z pe
                     | _ \<Rightarrow> Inl TypeError)"

definition source_in_zone :: "model \<Rightarrow> string \<Rightarrow> zone \<Rightarrow> proj \<Rightarrow> bool res" where
  "source_in_zone m s z pr =
     py_and (rbind (rbind (idx (proj_gen_tech m) pr) (g_energy_source_of m)) (\<lambda>s'. Inr (s' = s)))
            (rbind (idx (proj_load_zone m) pr) (\<lambda>z'. Inr (z' = z)))"

definition capacity_by_energy_source_headings :: "string list \<Rightarrow> string list" where
  "capacity_by_energy_source_headings bs =
     [''load_zone'', ''period''] @ bs @ [''hydro'', ''batteries'', ''fuel cells'']"

definition capacity_by_energy_source_values ::
  "model \<Rightarrow> proj list \<Rightarrow> (proj \<times> period) list \<Rightarrow> string list \<Rightarrow> zone \<Rightarrow> period \<Rightarrow> cell list res" where
  "capacity_by_energy_source_values m bp ops bs z pe = rconcat
     [Inr [Text z, Whole pe],
      traverse (\<lambda>s. num (py_sum_if (source_in_zone m s z)
                                     (\<lambda>pr. capacity_in_operation m ops pr pe) bp)) bs,
      storage_capacity_cells m z pe]"

definition capacity_by_energy_source_table ::
  "model \<Rightarrow> string \<Rightarrow> proj list \<Rightarrow> (proj \<times> period) list \<Rightarrow> string list \<Rightarrow> table res" where
  "capacity_by_energy_source_table m outputs_dir bp ops bs =
     write_table [map IName (LOAD_ZONES m), map INumber (PERIODS m)]
       (path_join outputs_dir (''capacity_by_energy_source'' @ tag m @ ''.tsv''))
       (capacity_by_energy_source_headings bs)
       (\<lambda>x. case x of [IName z, INumber pe] \<Rightarrow> capacity_by_energy_source_values m bp ops bs z pe
                     | _ \<Rightarrow> Inl TypeError)"

text \<open>
  The condition of the capacity reports in the words of their description: the project
  dispatched more than 0.001 at some timepoint of the period.
\<close>

definition dispatched_in_period :: "model \<Rightarrow> proj \<Rightarrow> period \<Rightarrow> bool" where
  "dispatched_in_period m pr pe =
     list_ex (\<lambda>(pr', tp). pr' = pr \<and> tp_period m tp = Some pe
                \<and> (case DispatchProj m (pr', tp) of Some d \<Rightarrow> d > 1 / 1000 | None \<Rightarrow> False))
       (PROJ_DISPATCH_POINTS m)"

subsection \<open>The cost breakdown\<close>

definition cost_breakdown_headings :: "model \<Rightarrow> tech list \<Rightarrow> string list" where
  "cost_breakdown_headings m bt =
     [''load_zone'', ''period''] @ map (\<lambda>t. t @ ''_mw_added'') bt
     @ [''batteries_mw_added'', ''batteries_mwh_added'', ''hydro_mw_added'']
     @ [''h2_electrolyzer_mw_added'', ''h2_liquifier_kg_per_hour_added'',
        ''liquid_h2_tank_kg_added'', ''fuel_cell_mw_added'']
     @ (if hasattr (ev_share m) then [''ev_count'', ''ice_count''] else [])
     @ map (\<lambda>t. t @ ''_overnight_cost'') bt
     @ [''batteries_overnight_cost'', ''hydro_overnight_cost'']
     @ [''h2_electrolyzer_overnight_cost'', ''h2_liquifier_overnight_cost'',
        ''liquid_h2_tank_overnight_cost'', ''fuel_cell_overnight_cost'']
     @ (case REGIONAL_FUEL_MARKET m of Some rfms \<Rightarrow> map (\<lambda>rfm. rfm @ ''_annual_cost'') rfms
                                     | None \<Rightarrow> [])
     @ (if hasattr (RFM_Fixed_Costs_Annual m) then [''fuel_market_expansion_annual_cost''] else [])
     @ [''total_electricity_cost'']
     @ (if hasattr (ev_extra_annual_cost m) then [''ev_extra_capital_recovery''] else [])
     @ (if hasattr (ice_annual_fuel_cost m) then [''ice_annual_fuel_cost''] else [])"

definition cost_breakdown_details ::
  "financials \<Rightarrow> model \<Rightarrow> proj list \<Rightarrow> tech list \<Rightarrow> zone \<Rightarrow> period \<Rightarrow> cell list res" where
  "cost_breakdown_details fin m bp bt z pe = rconcat
     [Inr [Text z, Whole pe],
      traverse (\<lambda>t. num (py_sum_if
                  (\<lambda>pr. py_and (tech_in_zone m t z pr) (Inr (BuildProj m (pr, pe) \<noteq> None)))
                  (\<lambda>pr. idx (BuildProj m) (pr, pe)) bp)) bt,
      if hasattr (BuildBattery m)
      then sequence_row
        [num (py_div (aidx (BuildBattery m) (z, pe)) (attr (battery_min_discharge_time m))),
         num (aidx (BuildBattery m) (z, pe))]
      else Inr [Number 0, Number 0],
      single
        (if hasattr (BuildPumpedHydroMW m)
         then num (rbind (attr (PH_PROJECTS m))
                (py_sum_if (\<lambda>pr. rbind (aidx (ph_load_zone m) pr) (\<lambda>z'. Inr (z' = z)))
                           (\<lambda>pr. aidx (BuildPumpedHydroMW m) (pr, pe))))
         else Inr (Number 0)),
      if hasattr (BuildElectrolyzerMW m)
      then sequence_row
        [num (aidx (BuildElectrolyzerMW m) (z, pe)),
         num (aidx (BuildLiquifierKgPerHour m) (z, pe)),
         num (aidx (BuildLiquidHydrogenTankKg m) (z, pe)),
         num (aidx (BuildFuelCellMW m) (z, pe))]
      else Inr [Number 0, Number 0, Number 0, Number 0],
      if hasattr (ev_share m)
      then sequence_row
        [num (py_mul (aidx (n_all_vehicles m) (z, pe)) (aidx (ev_share m) (z, pe))),
         num (py_mul (aidx (n_all_vehicles m) (z, pe)) (py_sub (Inr 1) (aidx (ev_share m) (z, pe))))]
      else Inr [],
      traverse (\<lambda>t. num (py_sum_if
                  (\<lambda>pr. py_and (tech_in_zone m t z pr) (Inr ((pr, pe) \<in> set (PROJECT_BUILDYEARS m))))
                  (\<lambda>pr. py_mul (idx (BuildProj m) (pr, pe))
                           (py_add (idx (proj_overnight_cost m) (pr, pe))
                                   (idx (proj_connect_cost_per_mw m) pr))) bp)) bt,
      single
        (if hasattr (battery_capital_cost_per_mwh_capacity m)
         then num (py_mul (aidx (BuildBattery m) (z, pe)) (attr (battery_capital_cost_per_mwh_capacity m)))
         else if hasattr (battery_capital_cost_per_mwh_capacity_by_year m)
         then num (py_mul (aidx (BuildBattery m) (z, pe))
                          (aidx (battery_capital_cost_per_mwh_capacity_by_year m) pe))
         else Inr (Number 0)),
      single
        (if hasattr (BuildPumpedHydroMW m)
         then num (rbind (attr (PH_PROJECTS m))
                (py_sum_if (\<lambda>pr. rbind (aidx (ph_load_zone m) pr) (\<lambda>z'. Inr (z' = z)))
                           (\<lambda>pr. py_mul (aidx (BuildPumpedHydroMW m) (pr, pe))
                                    (aidx (ph_capital_cost_per_mw m) pr))))
         else Inr (Number 0)),
      if hasattr (BuildElectrolyzerMW m)
      then sequence_row
        [num (py_mul (aidx (BuildElectrolyzerMW m) (z, pe))
                     (attr (hydrogen_electrolyzer_capital_cost_per_mw m))),
         num (py_mul (aidx (BuildLiquifierKgPerHour m) (z, pe))
                     (attr (hydrogen_liquifier_capital_cost_per_kg_per_hour m))),
         num (py_mul (aidx (BuildLiquidHydrogenTankKg m) (z, pe))
                     (attr (liquid_hydrogen_tank_capital_cost_per_kg m))),
         num (py_mul (aidx (BuildFuelCellMW m) (z, pe))
                     (attr (hydrogen_fuel_cell_capital_cost_per_mw m)))]
      else Inr [Number 0, Number 0, Number 0, Number 0],
      if hasattr (REGIONAL_FUEL_MARKET m)
      then rbind (attr (REGIONAL_FUEL_MARKET m))
             (traverse (\<lambda>rfm. num (rbind (aidx (RFM_P_SUPPLY_TIERS m) (rfm, pe))
                (py_sum (\<lambda>rfm_st. py_mul (aidx (FuelConsumptionByTier m) rfm_st)
                                          (aidx (rfm_supply_tier_cost m) rfm_st))))))
      else Inr [],
      if hasattr (RFM_Fixed_Costs_Annual m)
      then single (num (aidx (RFM_Fixed_Costs_Annual m) pe))
      else Inr [],
      single (num (rbind (idx (SystemCostPerPeriod m) pe)
                     (annualize_present_value_period_cost fin m pe))),
      if hasattr (ev_extra_annual_cost m)
      then sequence_row
        [num (aidx (ev_extra_annual_cost m) pe),
         num (aidx (ice_annual_fuel_cost m) pe)]
      else Inr []]"

definition cost_breakdown_table ::
  "financials \<Rightarrow> model \<Rightarrow> string \<Rightarrow> proj list \<Rightarrow> tech list \<Rightarrow> table res" where
  "cost_breakdown_table fin m outputs_dir bp bt =
     write_table [map IName (LOAD_ZONES m), map INumber (PERIODS m)]
       (path_join outputs_dir (''cost_breakdown'' @ tag m @ ''.tsv''))
       (cost_breakdown_headings m bt)
       (\<lambda>x. case x of [IName z, INumber pe] \<Rightarrow> cost_breakdown_details fin m bp bt z pe
                     | _ \<Rightarrow> Inl TypeError)"

subsection \<open>Activation of the supply tiers of the fuel markets\<close>

definition rfm_activate_table :: "model \<Rightarrow> string \<Rightarrow> table res" where
  "rfm_activate_table m outputs_dir =
     rbind (attr (RFM_SUPPLY_TIERS m)) (\<lambda>tiers.
       write_table [map (\<lambda>(r, p, st). ITier r p st) tiers]
         (path_join outputs_dir (''rfm_activate'' @ tag m @ ''.tsv''))
         [''market'', ''period'', ''tier'', ''activate'']
         (\<lambda>x. case x of
            [ITier r p st] \<Rightarrow>
              sequence_row [Inr (Text r), Inr (Whole p), Inr (Whole st),
                            num (aidx (RFMSupplyTierActivate m) (r, p, st))]
          | _ \<Rightarrow> Inl TypeError))"

subsection \<open>write_results\<close>

text \<open>
  The reports are written one after the other. A run is the list of the tables written,
  in order, and the exception that ended it, if any: an exception raised while a report
  is computed leaves the function, since nothing in it catches one.
\<close>

type_synonym run = "table list \<times> py_error option"

definition step :: "'a res \<Rightarrow> ('a \<Rightarrow> run) \<Rightarrow> run" where
  "step r k = (case r of Inl e \<Rightarrow> ([], Some e) | Inr v \<Rightarrow> k v)"

definition emit :: "table res \<Rightarrow> run \<Rightarrow> run" where
  "emit r k = (case r of Inl e \<Rightarrow> ([], Some e) | Inr t \<Rightarrow> (t # fst k, snd k))"

definition write_results :: "financials \<Rightarrow> model \<Rightarrow> string \<Rightarrow> run" where
  "write_results fin m outputs_dir =
     emit (summary_table m outputs_dir)
    (step (avg_ts_scale m) (\<lambda>avg.
     emit (energy_sources_table m outputs_dir avg)
    (step (built_proj m) (\<lambda>bp.
     step (operate_proj_in_period m) (\<lambda>ops.
     step (built_tech m bp) (\<lambda>bt.
     step (built_energy_source m bt) (\<lambda>bs.
     emit (capacity_by_technology_table m outputs_dir bp ops bt)
    (emit (capacity_by_energy_source_table m outputs_dir bp ops bs)
    (emit (cost_breakdown_table fin m outputs_dir bp bt)
    (if hasattr (RFMSupplyTierActivate m)
     then emit (rfm_activate_table m outputs_dir) ([], None)
     else ([], None)))))))))))"

subsection \<open>Example instances\<close>

text \<open>A model with no element in any set and no optional module loaded.\<close>

definition empty_model :: model where
  "empty_model =
    \<lparr>scenario_name = None,
     PERIODS = [],
     TIMEPOINTS = [],
     TIMESERIES = [],
     LOAD_ZONES = [],
     PROJECTS = [],
     FUELS = [],
     NON_FUEL_ENERGY_SOURCES = [],
     PERIOD_TPS = Map.empty,
     PROJ_DISPATCH_POINTS = [],
     PROJECT_BUILDYEARS = [],
     PROJECTS_BY_FUEL = Map.empty,
     PROJECTS_BY_NON_FUEL_ENERGY_SOURCE = Map.empty,
     G_FUELS = Map.empty,
     g_uses_fuel = Map.empty,
     g_energy_source = Map.empty,
     proj_gen_tech = Map.empty,
     proj_load_zone = Map.empty,
     tp_period = Map.empty,
     tp_timestamp = Map.empty,
     tp_ts = Map.empty,
     ts_scale_to_year = Map.empty,
     bring_timepoint_costs_to_base_year = Map.empty,
     SystemCost = 0,
     SystemCostPerPeriod = Map.empty,
     discount_rate = 0,
     base_financial_year = 0,
     period_length_years = Map.empty,
     period_start = Map.empty,
     DispatchProj = Map.empty,
     DispatchUpperLimit = Map.empty,
     ProjFuelUseRate = Map.empty,
     ProjCapacity = Map.empty,
     BuildProj = Map.empty,
     proj_overnight_cost = Map.empty,
     proj_connect_cost_per_mw = Map.empty,
     Energy_Balance = Map.empty,
     dual = Map.empty,
     LZ_Energy_Components_Produce = [],
     LZ_Energy_Components_Consume = [],
     zone_tp_component = Map.empty,
     demand_response_max_share = None,
     RPSEligiblePower = None,
     RPSTotalPower = None,
     RPSFuelPower = None,
     Battery_Capacity = None,
     battery_max_discharge = None,
     battery_min_discharge_time = None,
     Pumped_Hydro_Capacity_MW = None,
     FuelCellCapacityMW = None,
     BuildBattery = None,
     BuildPumpedHydroMW = None,
     PH_PROJECTS = None,
     ph_load_zone = None,
     ph_capital_cost_per_mw = None,
     BuildElectrolyzerMW = None,
     BuildLiquifierKgPerHour = None,
     BuildLiquidHydrogenTankKg = None,
     BuildFuelCellMW = None,
     hydrogen_electrolyzer_capital_cost_per_mw = None,
     hydrogen_liquifier_capital_cost_per_kg_per_hour = None,
     liquid_hydrogen_tank_capital_cost_per_kg = None,
     hydrogen_fuel_cell_capital_cost_per_mw = None,
     ev_share = None,
     n_all_vehicles = None,
     battery_capital_cost_per_mwh_capacity = None,
     battery_capital_cost_per_mwh_capacity_by_year = None,
     REGIONAL_FUEL_MARKET = None,
     RFM_P_SUPPLY_TIERS = None,
     FuelConsumptionByTier = None,
     rfm_supply_tier_cost = None,
     RFM_Fixed_Costs_Annual = None,
     ev_extra_annual_cost = None,
     ice_annual_fuel_cost = None,
     RFMSupplyTierActivate = None,
     RFM_SUPPLY_TIERS = None\<rparr>"

text \<open>
  Two load zones, one period of ten years, two timepoints in two timeseries. The steam
  plant Kahe burns two fuels at rates 3 : 1 and dispatches 100 at timepoint 1 and nothing
  at timepoint 2; the wind farm is built but never dispatched. No optional module is
  loaded and the discount rate is zero.
\<close>

definition demo_model :: model where
  "demo_model = empty_model
    \<lparr>scenario_name := Some ''demo'',
     PERIODS := [2020],
     TIMEPOINTS := [1, 2],
     TIMESERIES := [1, 2],
     LOAD_ZONES := [''Oahu'', ''Maui''],
     PROJECTS := [''Kahe'', ''Wind''],
     FUELS := [''LSFO'', ''Diesel''],
     NON_FUEL_ENERGY_SOURCES := [''Wind''],
     PERIOD_TPS := [2020 \<mapsto> [1, 2]],
     PROJ_DISPATCH_POINTS := [(''Kahe'', 1), (''Kahe'', 2), (''Wind'', 1), (''Wind'', 2)],
     PROJECT_BUILDYEARS := [(''Kahe'', 2020), (''Wind'', 2020)],
     PROJECTS_BY_FUEL := [''LSFO'' \<mapsto> [''Kahe''], ''Diesel'' \<mapsto> [''Kahe'']],
     PROJECTS_BY_NON_FUEL_ENERGY_SOURCE := [''Wind'' \<mapsto> [''Wind'']],
     G_FUELS := [''Steam'' \<mapsto> [''LSFO'', ''Diesel'']],
     g_uses_fuel := [''Steam'' \<mapsto> True, ''Turbine'' \<mapsto> False],
     g_energy_source := [''Steam'' \<mapsto> ''multiple'', ''Turbine'' \<mapsto> ''Wind''],
     proj_gen_tech := [''Kahe'' \<mapsto> ''Steam'', ''Wind'' \<mapsto> ''Turbine''],
     proj_load_zone := [''Kahe'' \<mapsto> ''Oahu'', ''Wind'' \<mapsto> ''Oahu''],
     tp_period := [1 \<mapsto> 2020, 2 \<mapsto> 2020],
     tp_timestamp := [1 \<mapsto> ''2020-peak'', 2 \<mapsto> ''2020-typical''],
     tp_ts := [1 \<mapsto> 1, 2 \<mapsto> 2],
     ts_scale_to_year := [1 \<mapsto> 10, 2 \<mapsto> 355],
     bring_timepoint_costs_to_base_year := [1 \<mapsto> 1, 2 \<mapsto> 1],
     SystemCost := 1000,
     SystemCostPerPeriod := [2020 \<mapsto> 1000],
     discount_rate := 0,
     base_financial_year := 2020,
     period_length_years := [2020 \<mapsto> 10],
     period_start := [2020 \<mapsto> 2020],
     DispatchProj := [(''Kahe'', 1) \<mapsto> 100, (''Kahe'', 2) \<mapsto> 0,
                      (''Wind'', 1) \<mapsto> 0, (''Wind'', 2) \<mapsto> 0],
     DispatchUpperLimit := [(''Wind'', 1) \<mapsto> 20, (''Wind'', 2) \<mapsto> 5],
     ProjFuelUseRate := [(''Kahe'', 1, ''LSFO'') \<mapsto> 3, (''Kahe'', 1, ''Diesel'') \<mapsto> 1,
                         (''Kahe'', 2, ''LSFO'') \<mapsto> 0, (''Kahe'', 2, ''Diesel'') \<mapsto> 0],
     ProjCapacity := [(''Kahe'', 2020) \<mapsto> 150, (''Wind'', 2020) \<mapsto> 30],
     BuildProj := [(''Kahe'', 2020) \<mapsto> 150, (''Wind'', 2020) \<mapsto> 30],
     proj_overnight_cost := [(''Kahe'', 2020) \<mapsto> 2, (''Wind'', 2020) \<mapsto> 3],
     proj_connect_cost_per_mw := [''Kahe'' \<mapsto> 0, ''Wind'' \<mapsto> 1],
     Energy_Balance := [(''Oahu'', 1) \<mapsto> 0, (''Oahu'', 2) \<mapsto> 1,
                        (''Maui'', 1) \<mapsto> 2, (''Maui'', 2) \<mapsto> 3],
     LZ_Energy_Components_Produce := [''LZ_NetDispatch''],
     LZ_Energy_Components_Consume := [''lz_demand_mw''],
     zone_tp_component :=
       [''LZ_NetDispatch'' \<mapsto> [(''Oahu'', 1) \<mapsto> 100, (''Oahu'', 2) \<mapsto> 0,
                                  (''Maui'', 1) \<mapsto> 0, (''Maui'', 2) \<mapsto> 0],
        ''lz_demand_mw'' \<mapsto> [(''Oahu'', 1) \<mapsto> 100, (''Oahu'', 2) \<mapsto> 50,
                                (''Maui'', 1) \<mapsto> 10, (''Maui'', 2) \<mapsto> 10]]\<rparr>"

text \<open>
  Discount factors at a discount rate of zero: a uniform annual stream over \<open>n\<close> years is
  worth \<open>n\<close>, and a future sum is worth itself.
\<close>

definition demo_financials :: financials where
  "demo_financials =
    \<lparr>uniform_series_to_present_value = (\<lambda>r n. Inr n),
     future_to_present_value = (\<lambda>r t. Inr 1)\<rparr>"

section \<open>Properties\<close>

subsection \<open>Evaluation of expressions that may raise\<close>

lemma rbind_Inr [simp]: "rbind (Inr v) f = f v"
  by (simp add: rbind_def)

lemma rbind_Inl [simp]: "rbind (Inl e) f = Inl e"
  by (simp add: rbind_def)

lemma idx_Some [simp]: "c k = Some v \<Longrightarrow> idx c k = Inr v"
  by (simp add: idx_def)

lemma idx_None [simp]: "c k = None \<Longrightarrow> idx c k = Inl KeyError"
  by (simp add: idx_def)

lemma traverse_Inr:
  "\<forall>x \<in> set xs. f x = Inr (g x) \<Longrightarrow> traverse f xs = Inr (map g xs)"
  by (induction xs) simp_all

lemma py_sum_Inr:
  "\<forall>x \<in> set xs. f x = Inr (g x) \<Longrightarrow> py_sum f xs = Inr (sum_list (map g xs))"
  using traverse_Inr [of xs f g] by (simp add: py_sum_def)

lemma py_div_Inr [simp]:
  "py_div (Inr x) (Inr y) = (if y = 0 then Inl ZeroDivisionError else Inr (x / y))"
  by (simp add: py_div_def)

lemma py_mul_Inr [simp]: "py_mul (Inr x) (Inr y) = Inr (x * y)"
  by (simp add: py_mul_def)

lemma rbind_eq_Inr: "rbind r k = Inr y \<longleftrightarrow> (\<exists>v. r = Inr v \<and> k v = Inr y)"
  by (cases r) (simp_all add: rbind_def)

lemma traverse_list_all2: "traverse f xs = Inr ys \<Longrightarrow> list_all2 (\<lambda>x y. f x = Inr y) xs ys"
  by (induction xs arbitrary: ys) (auto simp: rbind_eq_Inr)

lemma traverse_length: "traverse f xs = Inr ys \<Longrightarrow> length ys = length xs"
  by (drule traverse_list_all2) (simp add: list_all2_lengthD)

lemma traverse_set: "traverse f xs = Inr ys \<Longrightarrow> y \<in> set ys \<Longrightarrow> \<exists>x \<in> set xs. f x = Inr y"
  by (induction xs arbitrary: ys) (auto simp: rbind_eq_Inr)

lemma traverse_map: "traverse f (map g xs) = traverse (\<lambda>x. f (g x)) xs"
  by (induction xs) simp_all

lemma sequence_row_length: "sequence_row cs = Inr p \<Longrightarrow> length p = length cs"
  by (simp add: sequence_row_def traverse_length)

lemma single_length: "single r = Inr p \<Longrightarrow> length p = 1"
  by (auto simp: single_def rbind_eq_Inr)

lemma rconcat_Nil [simp]: "rconcat [] = Inr []"
  by (simp add: rconcat_def)

lemma rconcat_Cons:
  "rconcat (s # ss) = rbind s (\<lambda>p. rbind (rconcat ss) (\<lambda>r. Inr (p @ r)))"
  by (cases s; cases "traverse id ss") (simp_all add: rconcat_def)

lemma rconcat_length:
  "rconcat segs = Inr row \<Longrightarrow> list_all2 (\<lambda>s n. \<forall>p. s = Inr p \<longrightarrow> length p = n) segs ns
     \<Longrightarrow> length row = sum_list ns"
proof (induction segs arbitrary: row ns)
  case Nil
  then show ?case by simp
next
  case (Cons s ss)
  from Cons.prems(2) obtain n ns' where ns: "ns = n # ns'"
    and n: "\<forall>p. s = Inr p \<longrightarrow> length p = n"
    and rest: "list_all2 (\<lambda>s n. \<forall>p. s = Inr p \<longrightarrow> length p = n) ss ns'"
    by (auto simp: list_all2_Cons1)
  from Cons.prems(1) obtain p r where "s = Inr p" "rconcat ss = Inr r" "row = p @ r"
    by (auto simp: rconcat_Cons rbind_eq_Inr)
  with Cons.IH [OF _ rest] n ns show ?case by simp
qed

lemmas segment_lengths = single_length traverse_length sequence_row_length

lemma write_table_Inr:
  "write_table indexes file hs values = Inr T \<Longrightarrow>
     file_name T = file \<and> headings T = hs \<and> traverse values (cartesian indexes) = Inr (rows T)"
  by (auto simp: write_table_def rbind_eq_Inr)

lemma write_table_rows:
  assumes "write_table indexes file hs values = Inr T" and "r \<in> set (rows T)"
  shows "\<exists>x \<in> set (cartesian indexes). values x = Inr r"
  using write_table_Inr [OF assms(1)] assms(2) traverse_set by fastforce

lemma idx_eq_Inr: "idx c k = Inr v \<longleftrightarrow> c k = Some v"
  by (simp add: idx_def split: option.splits)




lemma collect_eq_map_filter:
  "collect c f xs = Inr ys \<Longrightarrow>
     ys = map (\<lambda>x. case f x of Inr y \<Rightarrow> y) (filter (\<lambda>x. c x = Inr True) xs)
     \<and> (\<forall>x \<in> set xs. (\<exists>b. c x = Inr b) \<and> (c x = Inr True \<longrightarrow> (\<exists>y. f x = Inr y)))"
  by (induction xs arbitrary: ys) (auto simp: rbind_eq_Inr split: if_splits)

lemma emit_Inl [simp]: "emit (Inl e) k = ([], Some e)"
  by (simp add: emit_def)

lemma emit_Inr [simp]: "emit (Inr t) k = (t # fst k, snd k)"
  by (simp add: emit_def)

lemma step_Inl [simp]: "step (Inl e) k = ([], Some e)"
  by (simp add: step_def)

lemma step_Inr [simp]: "step (Inr v) k = k v"
  by (simp add: step_def)

lemma rconcat_five:
  "rconcat (s1 # s2 # s3 # s4 # s5 # rest) = Inr row \<Longrightarrow>
     \<exists>p1 p2 p3 p4 p5 r. s1 = Inr p1 \<and> s2 = Inr p2 \<and> s3 = Inr p3 \<and> s4 = Inr p4 \<and> s5 = Inr p5
        \<and> row = p1 @ p2 @ p3 @ p4 @ p5 @ r"
  by (auto simp: rconcat_Cons rbind_eq_Inr)

subsection \<open>The example model, evaluated\<close>

lemmas eval_defs = rconcat_def sequence_row_def single_def num_def py_sum_def py_sum_if_def
  py_div_def py_mul_def py_add_def py_sub_def py_and_def aidx_def attr_def hasattr_def
  get_default_def py_set_def idx_def

lemmas report_defs = write_table_def path_join_def tag_def str_int_def str_nat.simps digit_def
  summary_table_def summary_headers_def summary_values_def demand_components_def discounted_kwh_def
  rps_values_def avg_ts_scale_def energy_sources_table_def energy_sources_headings_def
  energy_sources_values_def DispatchProjByFuel_def
  built_proj_def operate_proj_in_period_def built_tech_def built_energy_source_def
  g_energy_source_of_def battery_capacity_mw_def capacity_in_operation_def
  storage_capacity_cells_def tech_in_zone_def source_in_zone_def
  capacity_by_technology_table_def capacity_by_technology_headings_def
  capacity_by_technology_values_def capacity_by_energy_source_table_def
  capacity_by_energy_source_headings_def capacity_by_energy_source_values_def
  cost_breakdown_table_def cost_breakdown_headings_def cost_breakdown_details_def
  annualize_present_value_period_cost_def rfm_activate_table_def
  less_eq_char_def less_char_def

lemmas run_defs = write_results_def emit_def step_def




lemma demo_built_proj: "built_proj demo_model = Inr [''Kahe'', ''Wind'']"
  by (simp add: built_proj_def demo_model_def empty_model_def eval_defs)

lemma demo_operate: "operate_proj_in_period demo_model = Inr [(''Kahe'', 2020)]"
  by (simp add: operate_proj_in_period_def demo_model_def empty_model_def eval_defs)

lemma demo_built_tech: "built_tech demo_model [''Kahe'', ''Wind''] = Inr [''Steam'', ''Turbine'']"
  by (simp add: built_tech_def demo_model_def empty_model_def eval_defs)

lemma demo_built_energy_source:
  "built_energy_source demo_model [''Steam'', ''Turbine''] = Inr [''Diesel/LSFO'', ''Wind'']"
  by (simp add: built_energy_source_def g_energy_source_of_def demo_model_def empty_model_def eval_defs
        less_eq_char_def less_char_def)

lemma demo_capacity_by_technology:
  "capacity_by_technology_values demo_model [''Kahe'', ''Wind''] [(''Kahe'', 2020)]
     [''Steam'', ''Turbine''] ''Oahu'' 2020
   = Inr [Text ''Oahu'', Whole 2020, Number 150, Number 0, Whole 0, Number 0, Whole 0]"
  by (simp add: capacity_by_technology_values_def tech_in_zone_def capacity_in_operation_def
        storage_capacity_cells_def battery_capacity_mw_def demo_model_def empty_model_def eval_defs)

lemma demo_capacity_by_energy_source:
  "capacity_by_energy_source_values demo_model [''Kahe'', ''Wind''] [(''Kahe'', 2020)]
     [''Diesel/LSFO'', ''Wind''] ''Oahu'' 2020
   = Inr [Text ''Oahu'', Whole 2020, Number 150, Number 0, Whole 0, Number 0, Whole 0]"
  by (simp add: capacity_by_energy_source_values_def source_in_zone_def g_energy_source_of_def
        capacity_in_operation_def storage_capacity_cells_def battery_capacity_mw_def
        demo_model_def empty_model_def eval_defs less_eq_char_def less_char_def)

lemma demo_cost_breakdown_details:
  "cost_breakdown_details demo_financials demo_model [''Kahe'', ''Wind''] [''Steam'', ''Turbine'']
     ''Oahu'' 2020
   = Inr [Text ''Oahu'', Whole 2020, Number 150, Number 30, Number 0,
          Number 0, Number 0, Number 0, Number 0, Number 0, Number 0,
          Number 300, Number 120, Number 0, Number 0, Number 0, Number 0,
          Number 0, Number 0, Number 100]"
  by (simp add: report_defs eval_defs demo_model_def empty_model_def demo_financials_def)

lemma demo_absent:
  "\<not> hasattr (Pumped_Hydro_Capacity_MW demo_model)" "\<not> hasattr (Battery_Capacity demo_model)"
  "\<not> hasattr (FuelCellCapacityMW demo_model)" "\<not> hasattr (BuildBattery demo_model)"
  "\<not> hasattr (BuildPumpedHydroMW demo_model)" "\<not> hasattr (BuildElectrolyzerMW demo_model)"
  "\<not> hasattr (RFMSupplyTierActivate demo_model)" "\<not> hasattr (RPSEligiblePower demo_model)"
  by (simp_all add: hasattr_def demo_model_def empty_model_def)

lemma demo_no_timeseries_summary:
  "summary_table (demo_model\<lparr>TIMESERIES := []\<rparr>) ''out'' =
     Inr \<lparr>file_name = ''out/summary_demo.tsv'',
      headings = [''scenario'', ''max_demand_response_share'', ''total_cost'',
         ''cost_per_kwh'', ''cost_per_kwh_2020''],
      rows = [[Text ''demo'', Number 0, Number 1000, Number (1 / 170), Number (1 / 170)]]\<rparr>"
  by (simp add: report_defs eval_defs demo_model_def empty_model_def)

lemma demo_no_timeseries_avg:
  "avg_ts_scale (demo_model\<lparr>TIMESERIES := []\<rparr>) = Inl ZeroDivisionError"
  by (simp add: report_defs eval_defs demo_model_def empty_model_def)


lemma demo_run_ok: "snd (write_results demo_financials demo_model ''out'') = None"
  by (simp add: run_defs report_defs eval_defs demo_model_def empty_model_def demo_financials_def)
subsection \<open>The fuel-proportional allocation\<close>

lemma DispatchProjByFuel_nonzero:
  assumes "DispatchProj m (proj, tp) = Some d" and "d \<noteq> 0"
    and "proj_gen_tech m proj = Some t" and "G_FUELS m t = Some fs"
    and "\<forall>f \<in> set fs. ProjFuelUseRate m (proj, tp, f) = Some (rate f)"
    and "ProjFuelUseRate m (proj, tp, fuel) = Some r"
  shows "DispatchProjByFuel m proj tp fuel =
          (if sum_list (map rate fs) = 0 then Inr 0 else Inr (d * r / sum_list (map rate fs)))"
proof -
  have "py_sum (\<lambda>f. idx (ProjFuelUseRate m) (proj, tp, f)) fs = Inr (sum_list (map rate fs))"
    using assms(5) by (intro py_sum_Inr) simp
  with assms show ?thesis
    by (simp add: DispatchProjByFuel_def)
qed

lemma sum_list_share:
  fixes d T :: real
  assumes "T \<noteq> 0" and "T = sum_list (map rate fs)"
  shows "sum_list (map (\<lambda>f. d * rate f / T) fs) = d"
proof -
  have "sum_list (map (\<lambda>f. (d / T) * rate f) fs) = (d / T) * sum_list (map rate fs)"
    by (rule sum_list_const_mult)
  then show ?thesis using assms by simp
qed

text \<open>
  The caught exception is the only division fault the function can meet, so it never
  leaves the function, whatever the model holds.
\<close>

lemma DispatchProjByFuel_no_division_fault:
  "DispatchProjByFuel m proj tp fuel \<noteq> Inl ZeroDivisionError"
  by (simp add: DispatchProjByFuel_def Let_def split: sum.splits py_error.splits)

text \<open>
  Claim C1. Let project \<open>proj\<close> dispatch \<open>d \<noteq> 0\<close> at timepoint \<open>tp\<close>, let \<open>fs\<close> be the
  eligible fuels of its technology, each with a use rate \<open>rate f\<close> at that project and
  timepoint, and let the rates sum to a nonzero total. Then the allocation of every fuel
  with a use rate \<open>r\<close> is \<open>d * r / total\<close>, and the allocations of the eligible fuels sum
  to \<open>d\<close> (in exact arithmetic).
\<close>

theorem DispatchProjByFuel_proportional:
  assumes disp: "DispatchProj m (proj, tp) = Some d" and nz: "d \<noteq> 0"
    and tech: "proj_gen_tech m proj = Some t" and fuels: "G_FUELS m t = Some fs"
    and rates: "\<forall>f \<in> set fs. ProjFuelUseRate m (proj, tp, f) = Some (rate f)"
    and total: "sum_list (map rate fs) \<noteq> 0"
  shows "(\<forall>fuel r. ProjFuelUseRate m (proj, tp, fuel) = Some r \<longrightarrow>
            DispatchProjByFuel m proj tp fuel = Inr (d * r / sum_list (map rate fs)))
       \<and> py_sum (DispatchProjByFuel m proj tp) fs = Inr d"
proof
  show "\<forall>fuel r. ProjFuelUseRate m (proj, tp, fuel) = Some r \<longrightarrow>
            DispatchProjByFuel m proj tp fuel = Inr (d * r / sum_list (map rate fs))"
    using DispatchProjByFuel_nonzero [OF disp nz tech fuels rates] total by simp
next
  have "\<forall>f \<in> set fs. DispatchProjByFuel m proj tp f = Inr (d * rate f / sum_list (map rate fs))"
    using DispatchProjByFuel_nonzero [OF disp nz tech fuels rates] rates total by simp
  then have "py_sum (DispatchProjByFuel m proj tp) fs
           = Inr (sum_list (map (\<lambda>f. d * rate f / sum_list (map rate fs)) fs))"
    by (rule py_sum_Inr)
  then show "py_sum (DispatchProjByFuel m proj tp) fs = Inr d"
    using sum_list_share [OF total refl] by simp
qed

theorem DispatchProjByFuel_proportional_witness:
  "DispatchProj demo_model (''Kahe'', 1) = Some 100
   \<and> DispatchProjByFuel demo_model ''Kahe'' 1 ''LSFO'' = Inr 75
   \<and> DispatchProjByFuel demo_model ''Kahe'' 1 ''Diesel'' = Inr 25
   \<and> py_sum (DispatchProjByFuel demo_model ''Kahe'' 1) [''LSFO'', ''Diesel''] = Inr 100"
  using DispatchProjByFuel_proportional
    [of demo_model "''Kahe''" 1 100 "''Steam''" "[''LSFO'', ''Diesel'']"
        "\<lambda>f. if f = ''LSFO'' then 3 else 1"]
  by (simp add: demo_model_def empty_model_def)

text \<open>
  Claim C2. When the dispatch of the project at the timepoint is 0, or the pair is not
  an index of the dispatch map, the allocation of every fuel is 0, whatever the use rates
  are (also when they are missing or sum to zero): no quotient is formed.
\<close>

theorem DispatchProjByFuel_zero_dispatch:
  "DispatchProj m (proj, tp) = None \<or> DispatchProj m (proj, tp) = Some 0
     \<Longrightarrow> DispatchProjByFuel m proj tp fuel = Inr 0"
  by (auto simp: DispatchProjByFuel_def)

theorem DispatchProjByFuel_zero_dispatch_witness:
  "DispatchProj demo_model (''Kahe'', 2) = Some 0
   \<and> DispatchProjByFuel demo_model ''Kahe'' 2 ''LSFO'' = Inr 0
   \<and> DispatchProj demo_model (''Kahe'', 3) = None
   \<and> DispatchProjByFuel demo_model ''Kahe'' 3 ''LSFO'' = Inr 0"
  using DispatchProjByFuel_zero_dispatch [of demo_model "''Kahe''" 2 "''LSFO''"]
    DispatchProjByFuel_zero_dispatch [of demo_model "''Kahe''" 3 "''LSFO''"]
  by (simp add: demo_model_def empty_model_def)

text \<open>
  Claim C3. When the dispatch is nonzero and the use rates of the project's eligible
  fuels sum to zero, the allocation is 0: the division fault is caught, not raised.
\<close>

theorem DispatchProjByFuel_zero_rates:
  assumes "DispatchProj m (proj, tp) = Some d" and "d \<noteq> 0"
    and "proj_gen_tech m proj = Some t" and "G_FUELS m t = Some fs"
    and "\<forall>f \<in> set fs. ProjFuelUseRate m (proj, tp, f) = Some (rate f)"
    and "ProjFuelUseRate m (proj, tp, fuel) = Some r"
    and "sum_list (map rate fs) = 0"
  shows "DispatchProjByFuel m proj tp fuel = Inr 0"
  using DispatchProjByFuel_nonzero [OF assms(1-6)] assms(7) by simp

theorem DispatchProjByFuel_zero_rates_witness:
  "DispatchProj (demo_model\<lparr>DispatchProj := [(''Kahe'', 2) \<mapsto> 40]\<rparr>) (''Kahe'', 2) = Some 40
   \<and> DispatchProjByFuel (demo_model\<lparr>DispatchProj := [(''Kahe'', 2) \<mapsto> 40]\<rparr>)
        ''Kahe'' 2 ''LSFO'' = Inr 0"
  using DispatchProjByFuel_zero_rates
    [of "demo_model\<lparr>DispatchProj := [(''Kahe'', 2) \<mapsto> 40]\<rparr>" "''Kahe''" 2 40 "''Steam''"
        "[''LSFO'', ''Diesel'']" "\<lambda>f. 0" "''LSFO''" 0]
  by (simp add: demo_model_def empty_model_def)

subsection \<open>Annualised cost\<close>

text \<open>
  Claim C4. For a period with a length and a start year, let \<open>a\<close> be the
  uniform-series-to-present-value factor at the discount rate over the period's length
  and \<open>b\<close> the future-to-present-value factor over the offset of the period's start from
  the base financial year. When \<open>a * b \<noteq> 0\<close> the annualised value of \<open>X\<close> is \<open>X / (a * b)\<close>,
  multiplying it by \<open>a * b\<close> gives \<open>X\<close> back, and annualising \<open>X * (a * b)\<close> gives \<open>X\<close>.
\<close>

theorem annualize_round_trip:
  assumes "period_length_years m period = Some n" and "period_start m period = Some s"
    and "uniform_series_to_present_value fin (discount_rate m) n = Inr a"
    and "future_to_present_value fin (discount_rate m) (s - base_financial_year m) = Inr b"
    and "a * b \<noteq> 0"
  shows "annualize_present_value_period_cost fin m period X = Inr (X / (a * b))
       \<and> X / (a * b) * (a * b) = X
       \<and> annualize_present_value_period_cost fin m period (X * (a * b)) = Inr X"
  using assms by (simp add: annualize_present_value_period_cost_def)

theorem annualize_round_trip_witness:
  "annualize_present_value_period_cost demo_financials demo_model 2020 1000 = Inr 100
   \<and> annualize_present_value_period_cost demo_financials demo_model 2020 (100 * (10 * 1)) = Inr 100"
  using annualize_round_trip [of demo_model 2020 10 2020 demo_financials 10 1 1000]
    annualize_round_trip [of demo_model 2020 10 2020 demo_financials 10 1 100]
  by (simp add: demo_model_def empty_model_def demo_financials_def)

subsection \<open>The table builder\<close>

lemma cartesian_product_lists: "cartesian ds = product_lists ds"
  by (induction ds) simp_all

lemma length_cartesian_Cons:
  "length (cartesian (d # ds)) = length d * length (cartesian ds)"
  by (induction d) simp_all

lemma length_cartesian: "length (cartesian ds) = prod_list (map length ds)"
proof (induction ds)
  case Nil
  then show ?case by simp
next
  case (Cons d ds)
  then show ?case by (simp only: length_cartesian_Cons list.map prod_list.Cons)
qed

lemma set_cartesian: "set (cartesian ds) = {x. list_all2 (\<lambda>k d. k \<in> set d) x ds}"
  by (simp add: cartesian_product_lists product_lists_set)

lemma distinct_cartesian: "\<forall>d \<in> set ds. distinct d \<Longrightarrow> distinct (cartesian ds)"
  by (simp add: cartesian_product_lists distinct_product_lists)

lemma concat_uniform_nth:
  assumes "\<forall>x \<in> set xs. length (f x) = n" and "i < length xs" and "j < n"
  shows "concat (map f xs) ! (i * n + j) = f (xs ! i) ! j"
  using assms
proof (induction xs arbitrary: i)
  case Nil
  then show ?case by simp
next
  case (Cons x xs)
  show ?case
  proof (cases i)
    case 0
    with Cons.prems show ?thesis by (simp add: nth_append)
  next
    case (Suc k)
    with Cons.prems have "concat (map f xs) ! (k * n + j) = f (xs ! k) ! j"
      by (intro Cons.IH) auto
    with Suc Cons.prems show ?thesis by (simp add: nth_append add.assoc)
  qed
qed

lemma cartesian_nth:
  assumes "r < length (cartesian (d # ds))"
  shows "cartesian (d # ds) ! r =
           d ! (r div length (cartesian ds)) # cartesian ds ! (r mod length (cartesian ds))"
proof -
  let ?n = "length (cartesian ds)"
  from assms have r: "r < length d * ?n" by (simp only: length_cartesian_Cons)
  then have pos: "0 < ?n" by (cases "?n = 0") auto
  from r pos have i: "r div ?n < length d" by (simp add: less_mult_imp_div_less)
  from pos have j: "r mod ?n < ?n" by simp
  have "concat (map (\<lambda>x. map ((#) x) (cartesian ds)) d) ! (r div ?n * ?n + r mod ?n)
          = map ((#) (d ! (r div ?n))) (cartesian ds) ! (r mod ?n)"
    using i j by (intro concat_uniform_nth) auto
  with j show ?thesis by simp
qed

lemma sorted_wrt_concat_map:
  assumes "sorted_wrt R xs" and "\<forall>x \<in> set xs. sorted_wrt Q (f x)"
    and "\<forall>x y. R x y \<longrightarrow> (\<forall>a \<in> set (f x). \<forall>b \<in> set (f y). Q a b)"
  shows "sorted_wrt Q (concat (map f xs))"
  using assms by (induction xs) (auto simp: sorted_wrt_append)

lemma cartesian_sorted:
  fixes ds :: "'a::linorder list list"
  assumes "\<forall>d \<in> set ds. sorted_wrt (<) d"
  shows "sorted_wrt (<) (cartesian ds)"
  using assms
proof (induction ds)
  case Nil
  then show ?case by simp
next
  case (Cons d ds)
  then have inner: "sorted_wrt (<) (cartesian ds)" and d: "sorted_wrt (<) d" by simp_all
  have "sorted_wrt (<) (concat (map (\<lambda>x. map ((#) x) (cartesian ds)) d))"
  proof (rule sorted_wrt_concat_map [OF d])
    show "\<forall>x \<in> set d. sorted_wrt (<) (map ((#) x) (cartesian ds))"
      using inner by (simp add: sorted_wrt_map)
    show "\<forall>x y. x < y \<longrightarrow> (\<forall>a \<in> set (map ((#) x) (cartesian ds)).
            \<forall>b \<in> set (map ((#) y) (cartesian ds)). a < b)"
      by auto
  qed
  then show ?case by simp
qed

lemma cartesian_positions:
  "cartesian ds = map (\<lambda>js. map2 (\<lambda>d j. d ! j) ds js) (cartesian (map (\<lambda>d. [0..<length d]) ds))"
proof (induction ds)
  case Nil
  then show ?case by simp
next
  case (Cons d ds)
  let ?P = "cartesian (map (\<lambda>d. [0..<length d]) ds)"
  have "map (\<lambda>js. map2 (\<lambda>d j. d ! j) (d # ds) js)
          (concat (map (\<lambda>j. map ((#) j) ?P) [0..<length d]))
      = concat (map (\<lambda>j. map ((#) (d ! j)) (cartesian ds)) [0..<length d])"
    by (subst Cons.IH) (simp add: map_concat comp_def)
  also have "\<dots> = concat (map (\<lambda>x. map ((#) x) (cartesian ds)) (map ((!) d) [0..<length d]))"
    by (simp add: comp_def)
  also have "\<dots> = cartesian (d # ds)"
    by (simp only: map_nth cartesian.simps)
  finally show ?case by simp
qed

text \<open>
  Claim C8. For dimensions \<open>D1, \<dots>, Dk\<close> and a row function that returns on every tuple of
  their Cartesian product, the table holds one row per tuple: the rows are the images of
  the tuples in their order, their number is the product of the sizes of the dimensions,
  the tuples are exactly those with the i-th component in \<open>Di\<close>, each once when no
  dimension repeats an element, and the order is lexicographic with the first dimension
  varying slowest: row \<open>r\<close> has the element number \<open>r div n\<close> of the first dimension in front
  of tuple number \<open>r mod n\<close> of the remaining ones (\<open>n\<close> their number), and the tuples of
  positions are strictly increasing in the lexicographic order.
\<close>

theorem write_table_cartesian:
  assumes "\<forall>x \<in> set (cartesian dims). values x = Inr (row x)"
  shows "write_table dims file hs values
           = Inr \<lparr>file_name = file, headings = hs, rows = map row (cartesian dims)\<rparr>
       \<and> length (map row (cartesian dims)) = prod_list (map length dims)
       \<and> set (cartesian dims) = {x. list_all2 (\<lambda>k d. k \<in> set d) x dims}
       \<and> ((\<forall>d \<in> set dims. distinct d) \<longrightarrow> distinct (cartesian dims))
       \<and> (\<forall>d ds r. dims = d # ds \<and> r < length (cartesian dims) \<longrightarrow>
            cartesian dims ! r
              = d ! (r div length (cartesian ds)) # cartesian ds ! (r mod length (cartesian ds)))
       \<and> cartesian dims = map (\<lambda>js. map2 (\<lambda>d j. d ! j) dims js)
                              (cartesian (map (\<lambda>d. [0..<length d]) dims))
       \<and> sorted_wrt (<) (cartesian (map (\<lambda>d. [0..<length d]) dims))"
proof (intro conjI)
  show "write_table dims file hs values
           = Inr \<lparr>file_name = file, headings = hs, rows = map row (cartesian dims)\<rparr>"
    using traverse_Inr [of "cartesian dims" "values" row] assms
    by (simp add: write_table_def)
  show "length (map row (cartesian dims)) = prod_list (map length dims)"
    by (simp add: length_cartesian)
  show "set (cartesian dims) = {x. list_all2 (\<lambda>k d. k \<in> set d) x dims}"
    by (rule set_cartesian)
  show "(\<forall>d \<in> set dims. distinct d) \<longrightarrow> distinct (cartesian dims)"
    using distinct_cartesian by blast
  show "\<forall>d ds r. dims = d # ds \<and> r < length (cartesian dims) \<longrightarrow>
            cartesian dims ! r
              = d ! (r div length (cartesian ds)) # cartesian ds ! (r mod length (cartesian ds))"
    using cartesian_nth by blast
  show "cartesian dims = map (\<lambda>js. map2 (\<lambda>d j. d ! j) dims js)
                              (cartesian (map (\<lambda>d. [0..<length d]) dims))"
    by (rule cartesian_positions)
  show "sorted_wrt (<) (cartesian (map (\<lambda>d. [0..<length d]) dims))"
    by (rule cartesian_sorted) (auto simp: sorted_wrt_upt)
qed

theorem write_table_cartesian_witness:
  "write_table [[IName ''a'', IName ''b''], [INumber 1, INumber 2, INumber 3]] ''t.tsv'' [''k'']
     (\<lambda>x. Inr (map (\<lambda>k. case k of INumber n \<Rightarrow> Whole n | IName s \<Rightarrow> Text s | _ \<Rightarrow> Whole 0) x))
   = Inr \<lparr>file_name = ''t.tsv'', headings = [''k''],
          rows = [[Text ''a'', Whole 1], [Text ''a'', Whole 2], [Text ''a'', Whole 3],
                  [Text ''b'', Whole 1], [Text ''b'', Whole 2], [Text ''b'', Whole 3]]\<rparr>"
  using write_table_cartesian
    [of "[[IName ''a'', IName ''b''], [INumber 1, INumber 2, INumber 3]]"
        "\<lambda>x. Inr (map (\<lambda>k. case k of INumber n \<Rightarrow> Whole n | IName s \<Rightarrow> Text s | _ \<Rightarrow> Whole 0) x)"
        "map (\<lambda>k. case k of INumber n \<Rightarrow> Whole n | IName s \<Rightarrow> Text s | _ \<Rightarrow> Whole 0)"
        "''t.tsv''" "[''k'']"]
  by simp

subsection \<open>Peak and typical days\<close>


lemma rconcat_last:
  "rconcat (segs @ [s]) = Inr row \<Longrightarrow> \<exists>front p. row = front @ p \<and> s = Inr p"
  by (induction segs arbitrary: row) (auto simp: rconcat_Cons rbind_eq_Inr)




subsection \<open>Capacity in operation\<close>

lemma operate_proj_in_period_set:
  assumes "operate_proj_in_period m = Inr ops"
  shows "(pr, pe) \<in> set ops \<longleftrightarrow> dispatched_in_period m pr pe"
proof -
  let ?c = "\<lambda>(pr, tp). rbind (idx (DispatchProj m) (pr, tp)) (\<lambda>d. Inr (d > 1 / 1000))"
  let ?f = "\<lambda>(pr, tp). rbind (idx (tp_period m) tp) (\<lambda>pe. Inr (pr, pe))"
  from assms obtain ys where ys: "collect ?c ?f (PROJ_DISPATCH_POINTS m) = Inr ys"
    and ops: "ops = py_set ys"
    by (auto simp: operate_proj_in_period_def rbind_eq_Inr)
  note col = collect_eq_map_filter [OF ys]
  have "(pr, pe) \<in> set ys \<longleftrightarrow> dispatched_in_period m pr pe"
  proof
    assume "(pr, pe) \<in> set ys"
    with col obtain x where x: "x \<in> set (PROJ_DISPATCH_POINTS m)" and cx: "?c x = Inr True"
      and fx: "(pr, pe) = (case ?f x of Inr y \<Rightarrow> y)" by auto
    from col x cx obtain y where y: "?f x = Inr y" by blast
    obtain p tp where [simp]: "x = (p, tp)" by (cases x)
    from y fx cx have "p = pr" "tp_period m tp = Some pe"
      "\<exists>d. DispatchProj m (p, tp) = Some d \<and> d > 1 / 1000"
      by (auto simp: rbind_eq_Inr idx_eq_Inr)
    with x show "dispatched_in_period m pr pe"
      by (auto simp: dispatched_in_period_def list_ex_iff intro!: bexI [of _ "(p, tp)"])
  next
    assume "dispatched_in_period m pr pe"
    then obtain tp d where x: "(pr, tp) \<in> set (PROJ_DISPATCH_POINTS m)"
      and "tp_period m tp = Some pe" and "DispatchProj m (pr, tp) = Some d" and "d > 1 / 1000"
      by (auto simp: dispatched_in_period_def list_ex_iff split: option.splits)
    then have "?c (pr, tp) = Inr True" and "?f (pr, tp) = Inr (pr, pe)" by simp_all
    with x col show "(pr, pe) \<in> set ys" by (force simp: image_iff)
  qed
  with ops show ?thesis by (simp add: py_set_def)
qed

lemma py_sum_if_eq_Inr:
  assumes "py_sum_if c f xs = Inr v"
  shows "v = sum_list (map (\<lambda>x. case f x of Inr y \<Rightarrow> y) (filter (\<lambda>x. c x = Inr True) xs))"
  using assms collect_eq_map_filter [of c f xs]
  by (auto simp: py_sum_if_def rbind_eq_Inr)

lemma capacity_in_operation_cases:
  assumes "operate_proj_in_period m = Inr ops"
  shows "capacity_in_operation m ops pr pe =
           (if dispatched_in_period m pr pe then idx (ProjCapacity m) (pr, pe) else Inr 0)"
  using operate_proj_in_period_set [OF assms] by (simp add: capacity_in_operation_def)

lemma capacity_column_sum:
  assumes ops: "operate_proj_in_period m = Inr ops"
    and v: "py_sum_if keep (\<lambda>pr. capacity_in_operation m ops pr pe) bp = Inr v"
  shows "v = sum_list (map (\<lambda>pr. if dispatched_in_period m pr pe
                                  then get_default (ProjCapacity m) (pr, pe) 0 else 0)
                          (filter (\<lambda>pr. keep pr = Inr True) bp))"
proof -
  have "(case capacity_in_operation m ops pr pe of Inr y \<Rightarrow> y)
          = (if dispatched_in_period m pr pe then get_default (ProjCapacity m) (pr, pe) 0 else 0)"
    if "\<exists>y. capacity_in_operation m ops pr pe = Inr y" for pr
    using that by (auto simp: capacity_in_operation_cases [OF ops] get_default_def idx_def
                        split: option.splits if_splits)
  moreover from v collect_eq_map_filter [of keep "\<lambda>pr. capacity_in_operation m ops pr pe" bp]
  have "\<forall>pr \<in> set bp. keep pr = Inr True \<longrightarrow> (\<exists>y. capacity_in_operation m ops pr pe = Inr y)"
    by (auto simp: py_sum_if_def rbind_eq_Inr)
  ultimately have "map (\<lambda>pr. case capacity_in_operation m ops pr pe of Inr y \<Rightarrow> y)
                     (filter (\<lambda>pr. keep pr = Inr True) bp)
                 = map (\<lambda>pr. if dispatched_in_period m pr pe
                                  then get_default (ProjCapacity m) (pr, pe) 0 else 0)
                     (filter (\<lambda>pr. keep pr = Inr True) bp)"
    by (intro map_cong) auto
  with py_sum_if_eq_Inr [OF v] show ?thesis by simp
qed

lemma capacity_row_cell:
  assumes "rconcat [Inr [a, b], traverse (\<lambda>t. num (g t)) cols, trailing] = Inr row" and "i < length cols"
  shows "\<exists>v. g (cols ! i) = Inr v \<and> row ! (2 + i) = Number v"
proof -
  from assms(1) obtain cells rest where cells: "traverse (\<lambda>t. num (g t)) cols = Inr cells"
    and row: "row = [a, b] @ cells @ rest"
    by (auto simp: rconcat_Cons rbind_eq_Inr)
  from traverse_list_all2 [OF cells] assms(2)
  have "num (g (cols ! i)) = Inr (cells ! i)" and "i < length cells"
    by (auto simp: list_all2_conv_all_nth)
  with row show ?thesis by (auto simp: num_def rbind_eq_Inr nth_append)
qed

text \<open>
  Claim C10. In a row of the capacity-by-technology report and of the
  capacity-by-energy-source report for load zone \<open>z\<close> and period \<open>pe\<close>, the cell of a
  technology (or energy source) is the sum, over the built projects of that technology
  (or source) in \<open>z\<close>, of the capacity of the project in \<open>pe\<close> when the project
  dispatched more than 0.001 at some timepoint of \<open>pe\<close>, and of 0 otherwise: a project
  that never dispatches above 0.001 in the period adds 0, whatever its capacity.
\<close>

theorem capacity_counts_dispatched_projects:
  assumes ops: "operate_proj_in_period m = Inr ops"
    and by_tech: "capacity_by_technology_values m bp ops bt z pe = Inr row" and i: "i < length bt"
    and by_source: "capacity_by_energy_source_values m bp ops bs z pe = Inr row'" and j: "j < length bs"
  shows "row ! (2 + i) = Number (sum_list (map
            (\<lambda>pr. if dispatched_in_period m pr pe then get_default (ProjCapacity m) (pr, pe) 0 else 0)
            (filter (\<lambda>pr. tech_in_zone m (bt ! i) z pr = Inr True) bp)))
       \<and> row' ! (2 + j) = Number (sum_list (map
            (\<lambda>pr. if dispatched_in_period m pr pe then get_default (ProjCapacity m) (pr, pe) 0 else 0)
            (filter (\<lambda>pr. source_in_zone m (bs ! j) z pr = Inr True) bp)))
       \<and> (\<forall>pr. \<not> dispatched_in_period m pr pe \<longrightarrow> capacity_in_operation m ops pr pe = Inr 0)"
proof (intro conjI)
  from capacity_row_cell [OF by_tech [unfolded capacity_by_technology_values_def] i]
  obtain v where "py_sum_if (tech_in_zone m (bt ! i) z) (\<lambda>pr. capacity_in_operation m ops pr pe) bp = Inr v"
    and "row ! (2 + i) = Number v" by blast
  with capacity_column_sum [OF ops] show "row ! (2 + i) = Number (sum_list (map
            (\<lambda>pr. if dispatched_in_period m pr pe then get_default (ProjCapacity m) (pr, pe) 0 else 0)
            (filter (\<lambda>pr. tech_in_zone m (bt ! i) z pr = Inr True) bp)))" by simp
next
  from capacity_row_cell [OF by_source [unfolded capacity_by_energy_source_values_def] j]
  obtain v where "py_sum_if (source_in_zone m (bs ! j) z) (\<lambda>pr. capacity_in_operation m ops pr pe) bp = Inr v"
    and "row' ! (2 + j) = Number v" by blast
  with capacity_column_sum [OF ops] show "row' ! (2 + j) = Number (sum_list (map
            (\<lambda>pr. if dispatched_in_period m pr pe then get_default (ProjCapacity m) (pr, pe) 0 else 0)
            (filter (\<lambda>pr. source_in_zone m (bs ! j) z pr = Inr True) bp)))" by simp
next
  show "\<forall>pr. \<not> dispatched_in_period m pr pe \<longrightarrow> capacity_in_operation m ops pr pe = Inr 0"
    by (simp add: capacity_in_operation_cases [OF ops])
qed

theorem capacity_counts_dispatched_projects_witness:
  "ProjCapacity demo_model (''Wind'', 2020) = Some 30
   \<and> \<not> dispatched_in_period demo_model ''Wind'' 2020
   \<and> capacity_in_operation demo_model [(''Kahe'', 2020)] ''Wind'' 2020 = Inr 0
   \<and> [Text ''Oahu'', Whole 2020, Number 150, Number 0, Whole 0, Number 0, Whole 0] ! (2 + 1)
       = Number (sum_list (map
           (\<lambda>pr. if dispatched_in_period demo_model pr 2020
                  then get_default (ProjCapacity demo_model) (pr, 2020) 0 else 0)
           (filter (\<lambda>pr. tech_in_zone demo_model ([''Steam'', ''Turbine''] ! 1) ''Oahu'' pr = Inr True)
              [''Kahe'', ''Wind''])))"
proof -
  note t = capacity_counts_dispatched_projects
    [OF demo_operate demo_capacity_by_technology _ demo_capacity_by_energy_source, of 1 1]
  have nd: "\<not> dispatched_in_period demo_model ''Wind'' 2020"
    by (simp add: dispatched_in_period_def demo_model_def empty_model_def)
  have "ProjCapacity demo_model (''Wind'', 2020) = Some 30"
    by (simp add: demo_model_def empty_model_def)
  moreover from t nd have "capacity_in_operation demo_model [(''Kahe'', 2020)] ''Wind'' 2020 = Inr 0"
    by simp
  moreover from t have
    "[Text ''Oahu'', Whole 2020, Number 150, Number 0, Whole 0, Number 0, Whole 0] ! (2 + 1)
       = Number (sum_list (map
           (\<lambda>pr. if dispatched_in_period demo_model pr 2020
                  then get_default (ProjCapacity demo_model) (pr, 2020) 0 else 0)
           (filter (\<lambda>pr. tech_in_zone demo_model ([''Steam'', ''Turbine''] ! 1) ''Oahu'' pr = Inr True)
              [''Kahe'', ''Wind''])))"
    by simp
  ultimately show ?thesis using nd by blast
qed

subsection \<open>Arity of rows and headers\<close>

lemma rps_values_length:
  assumes "rps_values m = Inr row"
  shows "length row = 2 + 2 * length (PERIODS m)"
proof -
  have "length row = sum_list [1, length (PERIODS m), 1, length (PERIODS m)]"
    by (rule rconcat_length [OF assms [unfolded rps_values_def]])
       (auto dest: segment_lengths)
  then show ?thesis by simp
qed

lemma summary_values_length:
  assumes "summary_values m = Inr row"
  shows "length row = length (summary_headers m)"
proof -
  have "length row = sum_list [2, 1, 1, length (PERIODS m),
          if hasattr (RPSEligiblePower m) then 2 + 2 * length (PERIODS m) else 0]"
    by (rule rconcat_length [OF assms [unfolded summary_values_def]])
       (auto dest: segment_lengths rps_values_length)
  then show ?thesis by (simp add: summary_headers_def)
qed

lemma energy_sources_values_length:
  assumes "energy_sources_values m avg z t = Inr row"
  shows "length row = length (energy_sources_headings m)"
proof -
  have "length row = sum_list [3, length (FUELS m), length (NON_FUEL_ENERGY_SOURCES m),
          length (NON_FUEL_ENERGY_SOURCES m), length (LZ_Energy_Components_Produce m),
          length (LZ_Energy_Components_Consume m), 2]"
    by (rule rconcat_length [OF assms [unfolded energy_sources_values_def]])
       (auto dest: segment_lengths)
  then show ?thesis by (simp add: energy_sources_headings_def)
qed

lemma storage_capacity_cells_length:
  "storage_capacity_cells m z pe = Inr p \<Longrightarrow> length p = 3"
  by (auto simp: storage_capacity_cells_def dest: sequence_row_length)

lemma capacity_by_technology_values_length:
  assumes "capacity_by_technology_values m bp ops bt z pe = Inr row"
  shows "length row = length (capacity_by_technology_headings bt)"
proof -
  have "length row = sum_list [2, length bt, 3]"
    by (rule rconcat_length [OF assms [unfolded capacity_by_technology_values_def]])
       (auto dest: segment_lengths storage_capacity_cells_length)
  then show ?thesis by (simp add: capacity_by_technology_headings_def)
qed

lemma capacity_by_energy_source_values_length:
  assumes "capacity_by_energy_source_values m bp ops bs z pe = Inr row"
  shows "length row = length (capacity_by_energy_source_headings bs)"
proof -
  have "length row = sum_list [2, length bs, 3]"
    by (rule rconcat_length [OF assms [unfolded capacity_by_energy_source_values_def]])
       (auto dest: segment_lengths storage_capacity_cells_length)
  then show ?thesis by (simp add: capacity_by_energy_source_headings_def)
qed

lemma cost_breakdown_details_length:
  assumes "cost_breakdown_details fin m bp bt z pe = Inr row"
  shows "length row = 2 + length bt + 2 + 1 + 4 + (if hasattr (ev_share m) then 2 else 0)
           + length bt + 1 + 1 + 4
           + (case REGIONAL_FUEL_MARKET m of Some rfms \<Rightarrow> length rfms | None \<Rightarrow> 0)
           + (if hasattr (RFM_Fixed_Costs_Annual m) then 1 else 0) + 1
           + (if hasattr (ev_extra_annual_cost m) then 2 else 0)"
proof -
  have "length row = sum_list [2, length bt, 2, 1, 4, if hasattr (ev_share m) then 2 else 0,
          length bt, 1, 1, 4,
          case REGIONAL_FUEL_MARKET m of Some rfms \<Rightarrow> length rfms | None \<Rightarrow> 0,
          if hasattr (RFM_Fixed_Costs_Annual m) then 1 else 0, 1,
          if hasattr (ev_extra_annual_cost m) then 2 else 0]"
  proof (rule rconcat_length [OF assms [unfolded cost_breakdown_details_def]],
         intro list.rel_intros allI impI)
    fix p
    assume "(if hasattr (REGIONAL_FUEL_MARKET m)
      then rbind (attr (REGIONAL_FUEL_MARKET m))
             (traverse (\<lambda>rfm. num (rbind (aidx (RFM_P_SUPPLY_TIERS m) (rfm, pe))
                (py_sum (\<lambda>rfm_st. py_mul (aidx (FuelConsumptionByTier m) rfm_st)
                                          (aidx (rfm_supply_tier_cost m) rfm_st))))))
      else Inr []) = Inr p"
    then show "length p = (case REGIONAL_FUEL_MARKET m of Some rfms \<Rightarrow> length rfms | None \<Rightarrow> 0)"
      by (cases "REGIONAL_FUEL_MARKET m")
         (auto simp: hasattr_def attr_def dest: traverse_length)
  qed (auto dest: segment_lengths split: if_splits)
  then show ?thesis by simp
qed

lemma cost_breakdown_headings_length:
  "length (cost_breakdown_headings m bt) = 2 + length bt + 3 + 4
           + (if hasattr (ev_share m) then 2 else 0)
           + length bt + 2 + 4
           + (case REGIONAL_FUEL_MARKET m of Some rfms \<Rightarrow> length rfms | None \<Rightarrow> 0)
           + (if hasattr (RFM_Fixed_Costs_Annual m) then 1 else 0) + 1
           + (if hasattr (ev_extra_annual_cost m) then 1 else 0)
           + (if hasattr (ice_annual_fuel_cost m) then 1 else 0)"
  by (simp add: cost_breakdown_headings_def split: option.splits)

lemma cost_breakdown_details_arity:
  assumes "cost_breakdown_details fin m bp bt z pe = Inr row"
  shows "length row + (if hasattr (ice_annual_fuel_cost m) \<and> \<not> hasattr (ev_extra_annual_cost m)
                       then 1 else 0)
           = length (cost_breakdown_headings m bt)"
proof -
  have "hasattr (ice_annual_fuel_cost m)" if "hasattr (ev_extra_annual_cost m)"
  proof -
    have "\<exists>front p. row = front @ p \<and>
            (if hasattr (ev_extra_annual_cost m)
             then sequence_row [num (aidx (ev_extra_annual_cost m) pe),
                                num (aidx (ice_annual_fuel_cost m) pe)]
             else Inr []) = Inr p"
      by (rule rconcat_last [where segs = "[_, _, _, _, _, _, _, _, _, _, _, _, _]", simplified,
            OF assms [unfolded cost_breakdown_details_def]])
    with that show ?thesis
      by (auto simp: sequence_row_def rbind_eq_Inr num_def aidx_def attr_def hasattr_def
               split: option.splits)
  qed
  with cost_breakdown_details_length [OF assms] show ?thesis
    by (auto simp: cost_breakdown_headings_length)
qed

lemma unpack2_Inr:
  "(case x of [IName z, INumber t] \<Rightarrow> f z t | _ \<Rightarrow> Inl TypeError) = Inr r
     \<Longrightarrow> \<exists>z t. x = [IName z, INumber t] \<and> f z t = Inr r"
  by (auto split: list.splits index_value.splits)

lemma summary_table_arity:
  assumes "summary_table m dir = Inr T" and "r \<in> set (rows T)"
  shows "length r = length (headings T)"
proof -
  from write_table_Inr [OF assms(1) [unfolded summary_table_def]]
       write_table_rows [OF assms(1) [unfolded summary_table_def] assms(2)]
  have "headings T = summary_headers m" and "summary_values m = Inr r"
    by (auto split: list.splits)
  then show ?thesis by (simp add: summary_values_length)
qed

lemma energy_sources_table_arity:
  assumes "energy_sources_table m dir avg = Inr T" and "r \<in> set (rows T)"
  shows "length r = length (headings T)"
proof -
  from write_table_Inr [OF assms(1) [unfolded energy_sources_table_def]]
       write_table_rows [OF assms(1) [unfolded energy_sources_table_def] assms(2)]
  obtain z t where "headings T = energy_sources_headings m"
    and "energy_sources_values m avg z t = Inr r"
    by (blast dest: unpack2_Inr)
  then show ?thesis by (simp add: energy_sources_values_length)
qed

lemma capacity_by_technology_table_arity:
  assumes "capacity_by_technology_table m dir bp ops bt = Inr T" and "r \<in> set (rows T)"
  shows "length r = length (headings T)"
proof -
  from write_table_Inr [OF assms(1) [unfolded capacity_by_technology_table_def]]
       write_table_rows [OF assms(1) [unfolded capacity_by_technology_table_def] assms(2)]
  obtain z pe where "headings T = capacity_by_technology_headings bt"
    and "capacity_by_technology_values m bp ops bt z pe = Inr r"
    by (blast dest: unpack2_Inr)
  then show ?thesis by (simp add: capacity_by_technology_values_length)
qed

lemma capacity_by_energy_source_table_arity:
  assumes "capacity_by_energy_source_table m dir bp ops bs = Inr T" and "r \<in> set (rows T)"
  shows "length r = length (headings T)"
proof -
  from write_table_Inr [OF assms(1) [unfolded capacity_by_energy_source_table_def]]
       write_table_rows [OF assms(1) [unfolded capacity_by_energy_source_table_def] assms(2)]
  obtain z pe where "headings T = capacity_by_energy_source_headings bs"
    and "capacity_by_energy_source_values m bp ops bs z pe = Inr r"
    by (blast dest: unpack2_Inr)
  then show ?thesis by (simp add: capacity_by_energy_source_values_length)
qed

lemma rfm_activate_table_arity:
  assumes "rfm_activate_table m dir = Inr T" and "r \<in> set (rows T)"
  shows "length r = length (headings T)"
proof -
  from assms(1) obtain tiers where
    T: "write_table [map (\<lambda>(r, p, st). ITier r p st) tiers]
         (path_join dir (''rfm_activate'' @ tag m @ ''.tsv''))
         [''market'', ''period'', ''tier'', ''activate'']
         (\<lambda>x. case x of
            [ITier r p st] \<Rightarrow>
              sequence_row [Inr (Text r), Inr (Whole p), Inr (Whole st),
                            num (aidx (RFMSupplyTierActivate m) (r, p, st))]
          | _ \<Rightarrow> Inl TypeError) = Inr T"
    by (auto simp: rfm_activate_table_def rbind_eq_Inr)
  from write_table_rows [OF T assms(2)] obtain a p st
    where "sequence_row [Inr (Text a), Inr (Whole p), Inr (Whole st),
                         num (aidx (RFMSupplyTierActivate m) (a, p, st))] = Inr r"
    by (auto split: list.splits index_value.splits)
  from sequence_row_length [OF this] write_table_Inr [OF T]
  show ?thesis by simp
qed

text \<open>
  The cost breakdown is the one report whose rows can differ from its header: the header
  has the column \<open>ice_annual_fuel_cost\<close> when the model has that attribute, the row has
  its value when the model has \<open>ev_extra_annual_cost\<close>.
\<close>

lemma cost_breakdown_table_arity:
  assumes "cost_breakdown_table fin m dir bp bt = Inr T" and "r \<in> set (rows T)"
  shows "length r + (if hasattr (ice_annual_fuel_cost m) \<and> \<not> hasattr (ev_extra_annual_cost m)
                     then 1 else 0)
           = length (headings T)"
proof -
  from write_table_Inr [OF assms(1) [unfolded cost_breakdown_table_def]]
       write_table_rows [OF assms(1) [unfolded cost_breakdown_table_def] assms(2)]
  obtain z pe where "headings T = cost_breakdown_headings m bt"
    and "cost_breakdown_details fin m bp bt z pe = Inr r"
    by (blast dest: unpack2_Inr)
  then show ?thesis using cost_breakdown_details_arity by simp
qed


text \<open>
  Claim C6. Every row of every report has the arity of the header of the report. The
  cost breakdown breaks it: for the example model with the attribute
  \<open>ice_annual_fuel_cost\<close> and without \<open>ev_extra_annual_cost\<close>, write_results ends
  without an exception, the rows of the first four reports have the arity of their
  headers, and the cost breakdown has a header of 21 columns over rows of 20 cells.
\<close>

theorem cost_breakdown_arity_mismatch:
  "map (\<lambda>T. (file_name T, length (headings T), map length (rows T)))
     (fst (write_results demo_financials
             (demo_model\<lparr>ice_annual_fuel_cost := Some [2020 \<mapsto> 7]\<rparr>) ''out''))
   = [(''out/summary_demo.tsv'', 5, [5]),
      (''out/energy_sources_demo.tsv'', 11, [11, 11, 11, 11]),
      (''out/capacity_by_technology_demo.tsv'', 7, [7, 7]),
      (''out/capacity_by_energy_source_demo.tsv'', 7, [7, 7]),
      (''out/cost_breakdown_demo.tsv'', 21, [20, 20])]
   \<and> snd (write_results demo_financials
             (demo_model\<lparr>ice_annual_fuel_cost := Some [2020 \<mapsto> 7]\<rparr>) ''out'') = None"
  by (simp add: run_defs report_defs eval_defs demo_model_def empty_model_def demo_financials_def)

subsection \<open>Columns of optional modules\<close>

lemma storage_capacity_cells_absent:
  assumes "\<not> hasattr (Pumped_Hydro_Capacity_MW m)" and "\<not> hasattr (Battery_Capacity m)"
    and "\<not> hasattr (FuelCellCapacityMW m)"
  shows "storage_capacity_cells m z pe = Inr [Whole 0, Number 0, Whole 0]"
  using assms
  by (simp add: storage_capacity_cells_def battery_capacity_mw_def sequence_row_def num_def)

lemma capacity_row_tail:
  assumes "rconcat [Inr [a, b], traverse g cols, trailing] = Inr row"
  shows "\<exists>p. trailing = Inr p \<and> drop (2 + length cols) row = p"
proof -
  from assms obtain cells p where "traverse g cols = Inr cells" and "trailing = Inr p"
    and "row = [a, b] @ cells @ p"
    by (auto simp: rconcat_Cons rbind_eq_Inr)
  then show ?thesis by (auto dest: traverse_length)
qed

lemma cost_breakdown_details_absent:
  assumes "\<not> hasattr (BuildBattery m)" and "\<not> hasattr (BuildPumpedHydroMW m)"
    and "\<not> hasattr (BuildElectrolyzerMW m)"
    and row: "cost_breakdown_details fin m bp bt z pe = Inr row"
  shows "take 7 (drop (2 + length bt) row) = replicate 7 (Number 0)"
proof -
  from rconcat_five [OF row [unfolded cost_breakdown_details_def]] assms(1-3)
  obtain p2 r where "length p2 = length bt"
    and "row = [Text z, Whole pe] @ p2 @ [Number 0, Number 0] @ [Number 0]
                 @ [Number 0, Number 0, Number 0, Number 0] @ r"
    by (auto simp: single_def dest: traverse_length)
  then show ?thesis by (simp add: numeral_eq_Suc)
qed

text \<open>
  Claim C5, amended. The headers narrow with the model only in part. The summary has its
  two groups of share columns exactly when the model has \<open>RPSEligiblePower\<close>, the cost
  breakdown has the vehicle counts, the fuel market costs, the market expansion cost and
  the two vehicle cost columns exactly when the model has the attribute that gates each,
  and the report of the supply tiers is written only when the model has
  \<open>RFMSupplyTierActivate\<close>. The columns for pumped hydro, batteries and fuel cells (hydrogen)
  are in the headers of the two capacity reports and of the cost breakdown for every
  model; when the model lacks the attributes of these modules their cells hold the
  placeholder 0.
\<close>

theorem optional_column_groups:
  "length (summary_headers m)
     = 4 + length (PERIODS m)
       + (if hasattr (RPSEligiblePower m) then 2 + 2 * length (PERIODS m) else 0)
   \<and> length (cost_breakdown_headings m bt)
     = 16 + 2 * length bt
       + (if hasattr (ev_share m) then 2 else 0)
       + (case REGIONAL_FUEL_MARKET m of Some rfms \<Rightarrow> length rfms | None \<Rightarrow> 0)
       + (if hasattr (RFM_Fixed_Costs_Annual m) then 1 else 0)
       + (if hasattr (ev_extra_annual_cost m) then 1 else 0)
       + (if hasattr (ice_annual_fuel_cost m) then 1 else 0)
   \<and> (\<not> hasattr (RPSEligiblePower m) \<longrightarrow>
        summary_headers m
          = [''scenario'', ''max_demand_response_share'', ''total_cost'', ''cost_per_kwh'']
            @ map (\<lambda>p. ''cost_per_kwh_'' @ str_int p) (PERIODS m))
   \<and> (\<not> hasattr (ev_share m) \<and> \<not> hasattr (REGIONAL_FUEL_MARKET m)
        \<and> \<not> hasattr (RFM_Fixed_Costs_Annual m) \<and> \<not> hasattr (ev_extra_annual_cost m)
        \<and> \<not> hasattr (ice_annual_fuel_cost m) \<longrightarrow>
        cost_breakdown_headings m bt
          = [''load_zone'', ''period''] @ map (\<lambda>t. t @ ''_mw_added'') bt
            @ [''batteries_mw_added'', ''batteries_mwh_added'', ''hydro_mw_added'',
               ''h2_electrolyzer_mw_added'', ''h2_liquifier_kg_per_hour_added'',
               ''liquid_h2_tank_kg_added'', ''fuel_cell_mw_added'']
            @ map (\<lambda>t. t @ ''_overnight_cost'') bt
            @ [''batteries_overnight_cost'', ''hydro_overnight_cost'',
               ''h2_electrolyzer_overnight_cost'', ''h2_liquifier_overnight_cost'',
               ''liquid_h2_tank_overnight_cost'', ''fuel_cell_overnight_cost'',
               ''total_electricity_cost''])
   \<and> (\<not> hasattr (RFMSupplyTierActivate m) \<longrightarrow> length (fst (write_results fin m dir)) \<le> 5)
   \<and> drop (2 + length bt) (capacity_by_technology_headings bt) = [''hydro'', ''batteries'', ''fuel cells'']
   \<and> drop (2 + length bs) (capacity_by_energy_source_headings bs)
       = [''hydro'', ''batteries'', ''fuel cells'']
   \<and> take 7 (drop (2 + length bt) (cost_breakdown_headings m bt))
       = [''batteries_mw_added'', ''batteries_mwh_added'', ''hydro_mw_added'',
          ''h2_electrolyzer_mw_added'', ''h2_liquifier_kg_per_hour_added'',
          ''liquid_h2_tank_kg_added'', ''fuel_cell_mw_added'']
   \<and> (\<not> hasattr (Pumped_Hydro_Capacity_MW m) \<and> \<not> hasattr (Battery_Capacity m)
        \<and> \<not> hasattr (FuelCellCapacityMW m) \<longrightarrow>
        (\<forall>row. capacity_by_technology_values m bp ops bt z pe = Inr row \<longrightarrow>
               drop (2 + length bt) row = [Whole 0, Number 0, Whole 0])
      \<and> (\<forall>row. capacity_by_energy_source_values m bp ops bs z pe = Inr row \<longrightarrow>
               drop (2 + length bs) row = [Whole 0, Number 0, Whole 0]))
   \<and> (\<not> hasattr (BuildBattery m) \<and> \<not> hasattr (BuildPumpedHydroMW m)
        \<and> \<not> hasattr (BuildElectrolyzerMW m) \<longrightarrow>
        (\<forall>row. cost_breakdown_details fin m bp bt z pe = Inr row \<longrightarrow>
               take 7 (drop (2 + length bt) row) = replicate 7 (Number 0)))"
proof (intro conjI impI allI)
  show "length (summary_headers m)
     = 4 + length (PERIODS m)
       + (if hasattr (RPSEligiblePower m) then 2 + 2 * length (PERIODS m) else 0)"
    by (simp add: summary_headers_def)
  show "length (cost_breakdown_headings m bt)
     = 16 + 2 * length bt
       + (if hasattr (ev_share m) then 2 else 0)
       + (case REGIONAL_FUEL_MARKET m of Some rfms \<Rightarrow> length rfms | None \<Rightarrow> 0)
       + (if hasattr (RFM_Fixed_Costs_Annual m) then 1 else 0)
       + (if hasattr (ev_extra_annual_cost m) then 1 else 0)
       + (if hasattr (ice_annual_fuel_cost m) then 1 else 0)"
    by (simp add: cost_breakdown_headings_length)
  show "summary_headers m
          = [''scenario'', ''max_demand_response_share'', ''total_cost'', ''cost_per_kwh'']
            @ map (\<lambda>p. ''cost_per_kwh_'' @ str_int p) (PERIODS m)"
    if "\<not> hasattr (RPSEligiblePower m)"
    using that by (simp add: summary_headers_def)
  show "cost_breakdown_headings m bt
          = [''load_zone'', ''period''] @ map (\<lambda>t. t @ ''_mw_added'') bt
            @ [''batteries_mw_added'', ''batteries_mwh_added'', ''hydro_mw_added'',
               ''h2_electrolyzer_mw_added'', ''h2_liquifier_kg_per_hour_added'',
               ''liquid_h2_tank_kg_added'', ''fuel_cell_mw_added'']
            @ map (\<lambda>t. t @ ''_overnight_cost'') bt
            @ [''batteries_overnight_cost'', ''hydro_overnight_cost'',
               ''h2_electrolyzer_overnight_cost'', ''h2_liquifier_overnight_cost'',
               ''liquid_h2_tank_overnight_cost'', ''fuel_cell_overnight_cost'',
               ''total_electricity_cost'']"
    if "\<not> hasattr (ev_share m) \<and> \<not> hasattr (REGIONAL_FUEL_MARKET m)
        \<and> \<not> hasattr (RFM_Fixed_Costs_Annual m) \<and> \<not> hasattr (ev_extra_annual_cost m)
        \<and> \<not> hasattr (ice_annual_fuel_cost m)"
    using that by (simp add: cost_breakdown_headings_def hasattr_def)
  show "length (fst (write_results fin m dir)) \<le> 5" if "\<not> hasattr (RFMSupplyTierActivate m)"
    using that by (simp add: write_results_def emit_def step_def split: sum.splits)
  show "drop (2 + length bt) (capacity_by_technology_headings bt)
          = [''hydro'', ''batteries'', ''fuel cells'']"
    by (simp add: capacity_by_technology_headings_def)
  show "drop (2 + length bs) (capacity_by_energy_source_headings bs)
          = [''hydro'', ''batteries'', ''fuel cells'']"
    by (simp add: capacity_by_energy_source_headings_def)
  show "take 7 (drop (2 + length bt) (cost_breakdown_headings m bt))
       = [''batteries_mw_added'', ''batteries_mwh_added'', ''hydro_mw_added'',
          ''h2_electrolyzer_mw_added'', ''h2_liquifier_kg_per_hour_added'',
          ''liquid_h2_tank_kg_added'', ''fuel_cell_mw_added'']"
    by (simp add: cost_breakdown_headings_def numeral_eq_Suc)
next
  fix row
  assume absent: "\<not> hasattr (Pumped_Hydro_Capacity_MW m) \<and> \<not> hasattr (Battery_Capacity m)
        \<and> \<not> hasattr (FuelCellCapacityMW m)"
  then have cells: "storage_capacity_cells m z pe = Inr [Whole 0, Number 0, Whole 0]"
    by (simp add: storage_capacity_cells_absent)
  { assume "capacity_by_technology_values m bp ops bt z pe = Inr row"
    from capacity_row_tail [OF this [unfolded capacity_by_technology_values_def]] cells
    show "drop (2 + length bt) row = [Whole 0, Number 0, Whole 0]" by auto }
  { assume "capacity_by_energy_source_values m bp ops bs z pe = Inr row"
    from capacity_row_tail [OF this [unfolded capacity_by_energy_source_values_def]] cells
    show "drop (2 + length bs) row = [Whole 0, Number 0, Whole 0]" by auto }
next
  fix row
  assume "\<not> hasattr (BuildBattery m) \<and> \<not> hasattr (BuildPumpedHydroMW m)
        \<and> \<not> hasattr (BuildElectrolyzerMW m)"
    and "cost_breakdown_details fin m bp bt z pe = Inr row"
  then show "take 7 (drop (2 + length bt) row) = replicate 7 (Number 0)"
    by (intro cost_breakdown_details_absent) auto
qed


theorem optional_column_groups_witness:
  "length (summary_headers demo_model) = 5
   \<and> length (fst (write_results demo_financials demo_model ''out'')) \<le> 5
   \<and> drop (2 + length [''Steam'', ''Turbine''])
        [Text ''Oahu'', Whole 2020, Number 150, Number 0, Whole 0, Number 0, Whole 0]
       = [Whole 0, Number 0, Whole 0]
   \<and> take 7 (drop (2 + length [''Steam'', ''Turbine''])
        [Text ''Oahu'', Whole 2020, Number 150, Number 30, Number 0,
          Number 0, Number 0, Number 0, Number 0, Number 0, Number 0,
          Number 300, Number 120, Number 0, Number 0, Number 0, Number 0,
          Number 0, Number 0, Number 100]) = replicate 7 (Number 0)"
proof -
  note t = optional_column_groups [where m = demo_model and bt = "[''Steam'', ''Turbine'']"
    and fin = demo_financials and dir = "''out''" and bs = "[''Diesel/LSFO'', ''Wind'']"
    and bp = "[''Kahe'', ''Wind'']" and ops = "[(''Kahe'', 2020)]" and z = "''Oahu''" and pe = 2020]
  from t demo_absent have "length (summary_headers demo_model) = 5"
    by (simp add: demo_model_def empty_model_def)
  moreover from t demo_absent have "length (fst (write_results demo_financials demo_model ''out'')) \<le> 5"
    by blast
  moreover from t demo_absent demo_capacity_by_technology
  have "drop (2 + length [''Steam'', ''Turbine''])
        [Text ''Oahu'', Whole 2020, Number 150, Number 0, Whole 0, Number 0, Whole 0]
       = [Whole 0, Number 0, Whole 0]"
    by blast
  moreover from t demo_absent demo_cost_breakdown_details
  have "take 7 (drop (2 + length [''Steam'', ''Turbine''])
        [Text ''Oahu'', Whole 2020, Number 150, Number 30, Number 0,
          Number 0, Number 0, Number 0, Number 0, Number 0, Number 0,
          Number 300, Number 120, Number 0, Number 0, Number 0, Number 0,
          Number 0, Number 0, Number 100]) = replicate 7 (Number 0)"
    by blast
  ultimately show ?thesis by blast
qed

text \<open>
  Claim C5 as stated fails: the example model has none of the attributes of pumped
  hydro, batteries or hydrogen, and its capacity report has their three columns, filled
  with 0, and its cost breakdown has their seven capacity and six cost columns.
\<close>

theorem absent_storage_columns_counterexample:
  "\<not> hasattr (Pumped_Hydro_Capacity_MW demo_model) \<and> \<not> hasattr (Battery_Capacity demo_model)
   \<and> \<not> hasattr (FuelCellCapacityMW demo_model) \<and> \<not> hasattr (BuildBattery demo_model)
   \<and> \<not> hasattr (BuildPumpedHydroMW demo_model) \<and> \<not> hasattr (BuildElectrolyzerMW demo_model)
   \<and> map (\<lambda>T. (headings T, rows T))
        (take 1 (drop 2 (fst (write_results demo_financials demo_model ''out''))))
     = [([''load_zone'', ''period'', ''Steam'', ''Turbine'', ''hydro'', ''batteries'', ''fuel cells''],
         [[Text ''Oahu'', Whole 2020, Number 150, Number 0, Whole 0, Number 0, Whole 0],
          [Text ''Maui'', Whole 2020, Number 0, Number 0, Whole 0, Number 0, Whole 0]])]
   \<and> map headings (drop 4 (fst (write_results demo_financials demo_model ''out'')))
     = [[''load_zone'', ''period'', ''Steam_mw_added'', ''Turbine_mw_added'',
         ''batteries_mw_added'', ''batteries_mwh_added'', ''hydro_mw_added'',
         ''h2_electrolyzer_mw_added'', ''h2_liquifier_kg_per_hour_added'',
         ''liquid_h2_tank_kg_added'', ''fuel_cell_mw_added'',
         ''Steam_overnight_cost'', ''Turbine_overnight_cost'',
         ''batteries_overnight_cost'', ''hydro_overnight_cost'',
         ''h2_electrolyzer_overnight_cost'', ''h2_liquifier_overnight_cost'',
         ''liquid_h2_tank_overnight_cost'', ''fuel_cell_overnight_cost'',
         ''total_electricity_cost'']]"
  by (simp add: run_defs report_defs eval_defs demo_model_def empty_model_def demo_financials_def)
subsection \<open>The sequence of reports\<close>

text \<open>
  Claim C9, amended. The reports are written in a fixed sequence and an exception is not
  contained: when the computation of a report (or of a value between two reports)
  raises, the run ends with that exception, the reports before it are the ones written
  and none of the later ones is produced. When nothing raises, the five reports are
  written, and a sixth exactly when the model has \<open>RFMSupplyTierActivate\<close>: leaving that
  report out does not affect the others.
\<close>

theorem write_results_sequential:
  "(snd (write_results fin m dir) = None \<longrightarrow>
      length (fst (write_results fin m dir)) = (if hasattr (RFMSupplyTierActivate m) then 6 else 5))
   \<and> (\<forall>e. snd (write_results fin m dir) = Some e \<longrightarrow>
      length (fst (write_results fin m dir)) < (if hasattr (RFMSupplyTierActivate m) then 6 else 5))
   \<and> (\<forall>e. summary_table m dir = Inl e \<longrightarrow> write_results fin m dir = ([], Some e))
   \<and> (\<forall>T1 e. summary_table m dir = Inr T1 \<and> avg_ts_scale m = Inl e \<longrightarrow>
         write_results fin m dir = ([T1], Some e))
   \<and> (\<forall>T1 avg e. summary_table m dir = Inr T1 \<and> avg_ts_scale m = Inr avg
         \<and> energy_sources_table m dir avg = Inl e \<longrightarrow>
         write_results fin m dir = ([T1], Some e))
   \<and> (\<forall>T1 avg T2 bp ops bt bs e. summary_table m dir = Inr T1 \<and> avg_ts_scale m = Inr avg
         \<and> energy_sources_table m dir avg = Inr T2
         \<and> built_proj m = Inr bp \<and> operate_proj_in_period m = Inr ops
         \<and> built_tech m bp = Inr bt \<and> built_energy_source m bt = Inr bs
         \<and> capacity_by_technology_table m dir bp ops bt = Inl e \<longrightarrow>
         write_results fin m dir = ([T1, T2], Some e))
   \<and> (\<forall>T1 avg T2 bp ops bt bs T3 e. summary_table m dir = Inr T1 \<and> avg_ts_scale m = Inr avg
         \<and> energy_sources_table m dir avg = Inr T2
         \<and> built_proj m = Inr bp \<and> operate_proj_in_period m = Inr ops
         \<and> built_tech m bp = Inr bt \<and> built_energy_source m bt = Inr bs
         \<and> capacity_by_technology_table m dir bp ops bt = Inr T3
         \<and> capacity_by_energy_source_table m dir bp ops bs = Inl e \<longrightarrow>
         write_results fin m dir = ([T1, T2, T3], Some e))
   \<and> (\<forall>T1 avg T2 bp ops bt bs T3 T4 e. summary_table m dir = Inr T1 \<and> avg_ts_scale m = Inr avg
         \<and> energy_sources_table m dir avg = Inr T2
         \<and> built_proj m = Inr bp \<and> operate_proj_in_period m = Inr ops
         \<and> built_tech m bp = Inr bt \<and> built_energy_source m bt = Inr bs
         \<and> capacity_by_technology_table m dir bp ops bt = Inr T3
         \<and> capacity_by_energy_source_table m dir bp ops bs = Inr T4
         \<and> cost_breakdown_table fin m dir bp bt = Inl e \<longrightarrow>
         write_results fin m dir = ([T1, T2, T3, T4], Some e))
   \<and> (\<forall>T1 avg T2 bp ops bt bs T3 T4 T5. summary_table m dir = Inr T1 \<and> avg_ts_scale m = Inr avg
         \<and> energy_sources_table m dir avg = Inr T2
         \<and> built_proj m = Inr bp \<and> operate_proj_in_period m = Inr ops
         \<and> built_tech m bp = Inr bt \<and> built_energy_source m bt = Inr bs
         \<and> capacity_by_technology_table m dir bp ops bt = Inr T3
         \<and> capacity_by_energy_source_table m dir bp ops bs = Inr T4
         \<and> cost_breakdown_table fin m dir bp bt = Inr T5
         \<and> \<not> hasattr (RFMSupplyTierActivate m) \<longrightarrow>
         write_results fin m dir = ([T1, T2, T3, T4, T5], None))"
proof (intro conjI)
  show "snd (write_results fin m dir) = None \<longrightarrow>
      length (fst (write_results fin m dir)) = (if hasattr (RFMSupplyTierActivate m) then 6 else 5)"
    by (simp add: run_defs split: sum.splits)
  show "\<forall>e. snd (write_results fin m dir) = Some e \<longrightarrow>
      length (fst (write_results fin m dir)) < (if hasattr (RFMSupplyTierActivate m) then 6 else 5)"
    by (simp add: run_defs split: sum.splits)
qed (simp_all add: write_results_def)

theorem write_results_sequential_witness:
  "write_results demo_financials (demo_model\<lparr>TIMESERIES := []\<rparr>) ''out'' =
     ([\<lparr>file_name = ''out/summary_demo.tsv'',
        headings = [''scenario'', ''max_demand_response_share'', ''total_cost'',
           ''cost_per_kwh'', ''cost_per_kwh_2020''],
        rows = [[Text ''demo'', Number 0, Number 1000, Number (1 / 170), Number (1 / 170)]]\<rparr>],
      Some ZeroDivisionError)
   \<and> snd (write_results demo_financials demo_model ''out'') = None
   \<and> length (fst (write_results demo_financials demo_model ''out'')) = 5"
proof -
  have "write_results demo_financials (demo_model\<lparr>TIMESERIES := []\<rparr>) ''out'' =
     ([\<lparr>file_name = ''out/summary_demo.tsv'',
        headings = [''scenario'', ''max_demand_response_share'', ''total_cost'',
           ''cost_per_kwh'', ''cost_per_kwh_2020''],
        rows = [[Text ''demo'', Number 0, Number 1000, Number (1 / 170), Number (1 / 170)]]\<rparr>],
      Some ZeroDivisionError)"
    using write_results_sequential [of demo_financials "demo_model\<lparr>TIMESERIES := []\<rparr>" "''out''",
      THEN conjunct2, THEN conjunct2, THEN conjunct2, THEN conjunct1, rule_format,
      OF conjI [OF demo_no_timeseries_summary demo_no_timeseries_avg]] .
  moreover have "length (fst (write_results demo_financials demo_model ''out'')) = 5"
    using write_results_sequential [of demo_financials demo_model "''out''", THEN conjunct1]
      demo_run_ok demo_absent(7) by simp
  ultimately show ?thesis using demo_run_ok by simp
qed

text \<open>
  Claim C9 as stated fails: with no timeseries the average scale raises a division
  fault after the summary, and the capacity report, which can be computed for that
  model, is not written.
\<close>

theorem reports_not_independent_counterexample:
  "map file_name (fst (write_results demo_financials (demo_model\<lparr>TIMESERIES := []\<rparr>) ''out''))
     = [''out/summary_demo.tsv'']
   \<and> snd (write_results demo_financials (demo_model\<lparr>TIMESERIES := []\<rparr>) ''out'')
     = Some ZeroDivisionError
   \<and> capacity_by_technology_table (demo_model\<lparr>TIMESERIES := []\<rparr>) ''out''
        [''Kahe'', ''Wind''] [(''Kahe'', 2020)] [''Steam'', ''Turbine'']
     = Inr \<lparr>file_name = ''out/capacity_by_technology_demo.tsv'',
            headings = [''load_zone'', ''period'', ''Steam'', ''Turbine'', ''hydro'',
                        ''batteries'', ''fuel cells''],
            rows = [[Text ''Oahu'', Whole 2020, Number 150, Number 0, Whole 0, Number 0, Whole 0],
                    [Text ''Maui'', Whole 2020, Number 0, Number 0, Whole 0, Number 0, Whole 0]]\<rparr>"
  by (simp add: run_defs report_defs eval_defs demo_model_def empty_model_def)

end
